theory Spec2Isabelle
  imports Complex_Main "HOL-Library.Sublist"
begin

section \<open>Overview\<close>

text \<open>
  The data-refresh functions of the price screens, embedded as functions on the
  screen's state:
  \<^item> \<open>fetchBitcoinData\<close> of the home screen, detailed strategy (\<open>index.tsx\<close>, lines
    42 to 119; the screen with the chart has the same function);
  \<^item> \<open>fetchBitcoinData\<close> of the earlier home screen, self-derived strategy (one
    365-day series, the last 48 points for the day);
  \<^item> \<open>fetchChartData\<close> and \<open>renderChart\<close> of the screen with the chart;
  \<^item> \<open>fetchMSTRData\<close> of the equity screen (\<open>strategy.tsx\<close>, lines 54 to 131);
  \<^item> the \<open>useEffect\<close> that calls them, at the first load and on the interval.

  An \<open>async\<close> function is the sequence of its steps: each \<open>await\<close> is given its
  outcome by the \<open>network\<close>, the state setters are applied in the order of the source
  and the function returns the resulting state. A \<open>throw\<close> is a value of \<open>js_exn\<close>,
  handled where the source catches it. The clock and the engine are parameters.
\<close>

section \<open>JavaScript numbers\<close>

text \<open>
  A JavaScript number is an IEEE 754 double: a finite non-zero value, one of the two
  zeros, one of the two infinities, or \<open>NaN\<close>. \<open>Fin x\<close> is the double of value \<open>x\<close>,
  \<open>Fin 0\<close> the positive zero and \<open>NegZero\<close> the negative one.
\<close>

datatype jsnum = Fin real | NegZero | PosInf | NegInf | NaN

fun value_of :: "jsnum \<Rightarrow> real" where
  "value_of (Fin x) = x"
| "value_of n = 0"

text \<open>The sign bit.\<close>

fun negative :: "jsnum \<Rightarrow> bool" where
  "negative (Fin x) = (x < 0)"
| "negative NegZero = True"
| "negative NegInf = True"
| "negative n = False"

definition is_zero :: "jsnum \<Rightarrow> bool" where
  "is_zero n = (n = Fin 0 \<or> n = NegZero)"

definition is_infinite :: "jsnum \<Rightarrow> bool" where
  "is_infinite n = (n = PosInf \<or> n = NegInf)"

definition zero_of :: "bool \<Rightarrow> jsnum" where
  "zero_of neg = (if neg then NegZero else Fin 0)"

definition infinity_of :: "bool \<Rightarrow> jsnum" where
  "infinity_of neg = (if neg then NegInf else PosInf)"

text \<open>
  An arithmetic operator computes the exact result and rounds it to a double. The
  rounding of an exact non-zero result is the parameter \<open>rnd\<close>: IEEE 754 makes it the
  nearest double, an infinity past the largest double and a zero of the result's sign
  below the smallest one. No property of \<open>rnd\<close> is assumed anywhere, so what is proved
  holds of the rounding doubles have. What the standard fixes for zeros, infinities
  and \<open>NaN\<close> is written out.
\<close>

type_synonym rounding = "real \<Rightarrow> jsnum"

text \<open>
  The binary \<open>-\<close>. An exact result of zero is the positive zero, except that
  \<open>-0 - 0\<close> is \<open>-0\<close>.
\<close>

definition num_sub :: "rounding \<Rightarrow> jsnum \<Rightarrow> jsnum \<Rightarrow> jsnum" where
  "num_sub rnd a b =
     (if a = NaN \<or> b = NaN then NaN
      else if is_infinite a then (if a = b then NaN else a)
      else if is_infinite b then infinity_of (\<not> negative b)
      else if value_of a - value_of b \<noteq> 0 then rnd (value_of a - value_of b)
      else if a = NegZero \<and> b = Fin 0 then NegZero
      else Fin 0)"

text \<open>
  The binary \<open>/\<close>: nothing is raised. A non-zero dividend over a zero is the infinity
  whose sign is the product of the two signs, a zero over a zero is \<open>NaN\<close>.
\<close>

definition num_div :: "rounding \<Rightarrow> jsnum \<Rightarrow> jsnum \<Rightarrow> jsnum" where
  "num_div rnd a b =
     (if a = NaN \<or> b = NaN then NaN
      else if is_infinite a then
        (if is_infinite b then NaN else infinity_of (negative a \<noteq> negative b))
      else if is_infinite b then zero_of (negative a \<noteq> negative b)
      else if is_zero b then
        (if is_zero a then NaN else infinity_of (negative a \<noteq> negative b))
      else if is_zero a then zero_of (negative a \<noteq> negative b)
      else rnd (value_of a / value_of b))"

text \<open>The binary \<open>*\<close>.\<close>

definition num_mul :: "rounding \<Rightarrow> jsnum \<Rightarrow> jsnum \<Rightarrow> jsnum" where
  "num_mul rnd a b =
     (if a = NaN \<or> b = NaN then NaN
      else if is_infinite a \<or> is_infinite b then
        (if is_zero a \<or> is_zero b then NaN else infinity_of (negative a \<noteq> negative b))
      else if is_zero a \<or> is_zero b then zero_of (negative a \<noteq> negative b)
      else rnd (value_of a * value_of b))"

text \<open>
  The comparisons \<open><\<close>, \<open>>\<close> and \<open>===\<close>: each is false as soon as one side is \<open>NaN\<close>,
  and the two zeros are equal. They are exact on doubles.
\<close>

fun num_lt :: "jsnum \<Rightarrow> jsnum \<Rightarrow> bool" where
  "num_lt NaN b = False"
| "num_lt a NaN = False"
| "num_lt PosInf b = False"
| "num_lt a NegInf = False"
| "num_lt NegInf b = True"
| "num_lt a PosInf = True"
| "num_lt a b = (value_of a < value_of b)"

definition num_gt :: "jsnum \<Rightarrow> jsnum \<Rightarrow> bool" where
  "num_gt a b = num_lt b a"

definition strict_eq :: "jsnum \<Rightarrow> jsnum \<Rightarrow> bool" where
  "strict_eq a b = (a \<noteq> NaN \<and> b \<noteq> NaN \<and> (a = b \<or> (is_zero a \<and> is_zero b)))"

text \<open>Truthiness of a number: the two zeros and \<open>NaN\<close> are falsy.\<close>

definition truthy :: "jsnum \<Rightarrow> bool" where
  "truthy n = (\<not> is_zero n \<and> n \<noteq> NaN)"

text \<open>\<open>x || 0\<close> for a field of type number that may be absent (\<open>undefined\<close> is \<open>None\<close>).\<close>

definition or_zero :: "jsnum option \<Rightarrow> jsnum" where
  "or_zero x = (case x of None \<Rightarrow> Fin 0 | Some n \<Rightarrow> if truthy n then n else Fin 0)"

text \<open>
  \<open>Math.max(...xs)\<close> and \<open>Math.min(...xs)\<close>: \<open>-Infinity\<close> and \<open>Infinity\<close> on no
  argument, \<open>NaN\<close> as soon as one argument is \<open>NaN\<close>; the positive zero counts as
  larger than the negative one.
\<close>

definition max2 :: "jsnum \<Rightarrow> jsnum \<Rightarrow> jsnum" where
  "max2 a b =
     (if a = NaN \<or> b = NaN then NaN
      else if num_lt a b then b
      else if a = NegZero \<and> b = Fin 0 then b
      else a)"

definition min2 :: "jsnum \<Rightarrow> jsnum \<Rightarrow> jsnum" where
  "min2 a b =
     (if a = NaN \<or> b = NaN then NaN
      else if num_lt b a then b
      else if a = Fin 0 \<and> b = NegZero then b
      else a)"

definition Math_max :: "jsnum list \<Rightarrow> jsnum" where
  "Math_max xs = foldl max2 NegInf xs"

definition Math_min :: "jsnum list \<Rightarrow> jsnum" where
  "Math_min xs = foldl min2 PosInf xs"

text \<open>Template interpolation \<open>`${n}`\<close> of an integer: its decimal digits.\<close>

fun show_nat :: "nat \<Rightarrow> string" where
  "show_nat n =
     (if n < 10 then [char_of (48 + n)]
      else show_nat (n div 10) @ [char_of (48 + n mod 10)])"

definition show_int :: "int \<Rightarrow> string" where
  "show_int i = (if i < 0 then CHR ''-'' # show_nat (nat (- i)) else show_nat (nat i))"

section \<open>The engine and the network\<close>

text \<open>
  A thrown value is an instance of \<open>Error\<close> carrying its message, or something else.
  A response is what \<open>await fetch(...)\<close> followed by \<open>await response.json()\<close> gives:
  the rejection (network failure, malformed JSON) or the parsed payload.
\<close>

datatype js_exn = ErrorInstance string | NotAnError

type_synonym 'a response = "js_exn + 'a"

text \<open>
  What every \<open>catch\<close> shows:
  \<open>error instanceof Error ? error.message : 'Failed to fetch data'\<close>.
\<close>

fun message_of :: "js_exn \<Rightarrow> string" where
  "message_of (ErrorInstance m) = m"
| "message_of NotAnError = ''Failed to fetch data''"

text \<open>
  What the source takes from the JavaScript engine and its locale data is a parameter:
  the rounding of the arithmetic operators, \<open>parseFloat\<close>, the wording of the engine's
  own \<open>TypeError\<close> (by the property read) and \<open>RangeError\<close>, the number of arguments
  a call \<open>f(...xs)\<close> can spread before the engine raises a \<open>RangeError\<close> with the
  wording it has for that, and the four date renderings of the chart labels
  (\<open>toLocaleTimeString\<close> with hour and minute, \<open>toLocaleDateString\<close> with month and
  day, with month and year, and \<open>getFullYear().toString()\<close>), each applied to the
  timestamp handed to \<open>new Date\<close>.
\<close>

record engine =
  roundNearest :: rounding
  parseFloat :: "string \<Rightarrow> jsnum"
  typeErrorMessage :: "string \<Rightarrow> string"
  rangeErrorMessage :: string
  spreadFits :: "nat \<Rightarrow> bool"
  spreadErrorMessage :: string
  localeTime :: "jsnum \<Rightarrow> string"
  localeMonthDay :: "jsnum \<Rightarrow> string"
  localeMonthYear :: "jsnum \<Rightarrow> string"
  fullYear :: "jsnum \<Rightarrow> string"

definition typeError :: "engine \<Rightarrow> string \<Rightarrow> js_exn" where
  "typeError eng property = ErrorInstance (typeErrorMessage eng property)"

text \<open>
  \<open>new Date(t).toISOString()\<close> raises a \<open>RangeError\<close> unless \<open>t\<close> is a valid time
  value: finite and at most 8.64e15 in absolute value.
\<close>

definition valid_time :: "jsnum \<Rightarrow> bool" where
  "valid_time t =
     (case t of Fin x \<Rightarrow> \<bar>x\<bar> \<le> 8640000000000000 | NegZero \<Rightarrow> True | _ \<Rightarrow> False)"

text \<open>The spread of \<open>n\<close> arguments into a call, which raises when they do not fit.\<close>

definition spread :: "engine \<Rightarrow> nat \<Rightarrow> js_exn option" where
  "spread eng n =
     (if spreadFits eng n then None else Some (ErrorInstance (spreadErrorMessage eng)))"

section \<open>Payloads\<close>

text \<open>
  Payloads have the types the source's interfaces declare. A field is an option where
  the source tests its presence, or where its absence makes a property read raise.
\<close>

text \<open>\<open>interface BitcoinHistoricalData\<close>: each point is the pair \<open>[timestamp, value]\<close>.\<close>

record BitcoinHistoricalData =
  prices :: "(jsnum \<times> jsnum) list option"
  market_caps :: "(jsnum \<times> jsnum) list option"
  total_volumes :: "(jsnum \<times> jsnum) list option"

text \<open>
  \<open>market_data\<close> of \<open>/coins/bitcoin\<close>. \<open>current_price\<close>, \<open>high_24h\<close>, \<open>low_24h\<close>,
  \<open>total_volume\<close> and \<open>market_cap\<close> are objects read at \<open>.usd\<close>: \<open>None\<close> is the object
  absent (the read raises), \<open>Some n\<close> its \<open>usd\<close>. The two precomputed changes are
  numbers that may be absent.
\<close>

record market_data_t =
  current_price :: "jsnum option"
  price_change_24h :: "jsnum option"
  price_change_percentage_24h :: "jsnum option"
  high_24h :: "jsnum option"
  low_24h :: "jsnum option"
  total_volume :: "jsnum option"
  market_cap :: "jsnum option"

record detailedData_t =
  market_data :: "market_data_t option"

text \<open>The Gemini ticker: \<open>changes\<close> lists hourly prices as strings, newest first.\<close>

record gemini_ticker_t =
  changes :: "string list option"

text \<open>
  \<open>interface AlphaVantageResponse\<close>, with the two keys of the soft errors. The daily
  series is the list of its properties in the order \<open>Object.keys\<close> enumerates them.
\<close>

record daily_t =
  open_1 :: string
  high_2 :: string
  low_3 :: string
  close_4 :: string
  volume_5 :: string

record meta_data_t =
  symbol_2 :: string
  last_refreshed_3 :: string

record AlphaVantageResponse =
  has_Error_Message :: bool
  has_Note :: bool
  Meta_Data :: "meta_data_t option"
  Time_Series_Daily :: "(string \<times> daily_t) list option"

text \<open>
  The requests a chart fetch can make: the ticker, or the market chart with its \<open>days\<close>.
\<close>

datatype endpoint = GeminiTicker | MarketChart string

record network =
  gemini_ticker :: "gemini_ticker_t response"
  market_chart :: "string \<Rightarrow> BitcoinHistoricalData response"
  coin_detail :: "detailedData_t response"
  alpha_vantage :: "AlphaVantageResponse response"

section \<open>The equity screen\<close>

text \<open>A pending \<open>setTimeout\<close>: its delay in milliseconds and what its callback does.\<close>

datatype timer_action = ClearPriceColor

record MSTRData =
  symbol :: string
  price :: jsnum
  "open" :: jsnum
  high :: jsnum
  low :: jsnum
  volume :: string
  lastRefreshed :: string
  priceChange :: jsnum
  priceChangePercent :: jsnum

record strategy_state =
  mstrData :: "MSTRData option"
  previousPrice :: "jsnum option"
  loading :: bool
  lastUpdated :: "nat option"
  priceColor :: "string option"
  error :: "string option"
  timers :: "(nat \<times> timer_action) list"

text \<open>
  The two days the record is built from:
  \<^verbatim>\<open>const latestDate = Object.keys(timeSeries)[0];
  const latestData = timeSeries[latestDate];
  const dates = Object.keys(timeSeries);
  const previousDate = dates[1];
  const previousData = timeSeries[previousDate];\<close>
  A key that is not there reads as \<open>undefined\<close>, here \<open>None\<close>.
\<close>

definition latestData_of :: "(string \<times> daily_t) list \<Rightarrow> daily_t option" where
  "latestData_of timeSeries =
     (let dates = map fst timeSeries
      in if length dates > 0 then map_of timeSeries (dates ! 0) else None)"

definition previousData_of :: "(string \<times> daily_t) list \<Rightarrow> daily_t option" where
  "previousData_of timeSeries =
     (let dates = map fst timeSeries
      in if length dates > 1 then map_of timeSeries (dates ! 1) else None)"

text \<open>
  \<^verbatim>\<open>const previousClose = previousData ? parseFloat(previousData['4. close'])
                                     : parseFloat(latestData['1. open']);\<close>
\<close>

definition previousClose_of :: "engine \<Rightarrow> daily_t \<Rightarrow> daily_t option \<Rightarrow> jsnum" where
  "previousClose_of eng latestData previousData =
     (case previousData of
        Some pd \<Rightarrow> parseFloat eng (close_4 pd)
      | None \<Rightarrow> parseFloat eng (open_1 latestData))"

text \<open>
  The body of the \<open>try\<close> of \<open>fetchMSTRData\<close> up to the record. The three tests come
  first, in this order; \<open>parseFloat\<close> is reached only past them. With no day at all,
  \<open>latestData\<close> is \<open>undefined\<close> and reading its close raises.
\<close>

definition mstr_attempt :: "engine \<Rightarrow> network \<Rightarrow> js_exn + (jsnum \<times> MSTRData)" where
  "mstr_attempt eng net =
     (case alpha_vantage net of
        Inl e \<Rightarrow> Inl e
      | Inr d \<Rightarrow>
     if has_Error_Message d then Inl (ErrorInstance ''Invalid API call or symbol not found'')
     else if has_Note d then Inl (ErrorInstance ''API call frequency limit reached'')
     else
     (case Time_Series_Daily d of
        None \<Rightarrow> Inl (ErrorInstance ''No time series data available'')
      | Some timeSeries \<Rightarrow>
     (case latestData_of timeSeries of
        None \<Rightarrow> Inl (typeError eng ''4. close'')
      | Some latestData \<Rightarrow>
     (let previousData = previousData_of timeSeries;
          currentPrice = parseFloat eng (close_4 latestData);
          previousClose = previousClose_of eng latestData previousData;
          priceChange = num_sub (roundNearest eng) currentPrice previousClose;
          priceChangePercent =
            num_mul (roundNearest eng)
              (num_div (roundNearest eng) priceChange previousClose) (Fin 100)
      in
     (case Meta_Data d of
        None \<Rightarrow> Inl (typeError eng ''2. Symbol'')
      | Some md \<Rightarrow>
          Inr (currentPrice,
            \<lparr>symbol = symbol_2 md,
             price = currentPrice,
             open = parseFloat eng (open_1 latestData),
             high = parseFloat eng (high_2 latestData),
             low = parseFloat eng (low_3 latestData),
             volume = volume_5 latestData,
             lastRefreshed = last_refreshed_3 md,
             priceChange = priceChange,
             priceChangePercent = priceChangePercent\<rparr>))))))"

definition flash_mstr :: "jsnum option \<Rightarrow> jsnum \<Rightarrow> strategy_state \<Rightarrow> strategy_state" where
  "flash_mstr heldPrice newPrice st =
     (case heldPrice of
        None \<Rightarrow> st
      | Some p \<Rightarrow>
          if \<not> strict_eq newPrice p then
            (let st1 = (if num_gt newPrice p then st\<lparr>priceColor := Some ''#22C55E''\<rparr>
                        else if num_lt newPrice p then st\<lparr>priceColor := Some ''#EF4444''\<rparr>
                        else st)
             in st1\<lparr>timers := timers st1 @ [(2000, ClearPriceColor)]\<rparr>)
          else st)"

text \<open>
  \<open>fetchMSTRData\<close>; \<open>heldPrice\<close> is the \<open>previousPrice\<close> the function closes over.
\<close>

definition fetchMSTRData ::
  "engine \<Rightarrow> network \<Rightarrow> nat \<Rightarrow> jsnum option \<Rightarrow> bool \<Rightarrow> strategy_state \<Rightarrow> strategy_state" where
  "fetchMSTRData eng net now heldPrice isInitialLoad st =
     (let st1 = (if isInitialLoad then st\<lparr>loading := True\<rparr> else st);
          st2 = st1\<lparr>error := None\<rparr>;
          st3 = (case mstr_attempt eng net of
                   Inr (currentPrice', newMstrData) \<Rightarrow>
                     (flash_mstr heldPrice currentPrice' st2)
                       \<lparr>previousPrice := Some currentPrice',
                        mstrData := Some newMstrData,
                        lastUpdated := Some now\<rparr>
                 | Inl e \<Rightarrow> st2\<lparr>error := Some (message_of e)\<rparr>)
      in if isInitialLoad then st3\<lparr>loading := False\<rparr> else st3)"

subsection \<open>The effect of the equity screen\<close>

text \<open>
  The same \<open>useEffect\<close> with an empty dependency list, here around
  \<open>fetchMSTRData\<close> and the cell \<open>previousPrice\<close>.
\<close>

definition initial_strategy_state :: strategy_state where
  "initial_strategy_state =
     \<lparr>mstrData = None, previousPrice = None, loading = True, lastUpdated = None,
      priceColor = None, error = None, timers = []\<rparr>"

definition first_load_mstr ::
  "engine \<Rightarrow> network \<Rightarrow> nat \<Rightarrow> strategy_state \<Rightarrow> strategy_state" where
  "first_load_mstr eng net now st =
     fetchMSTRData eng net now (previousPrice initial_strategy_state) True st"

definition interval_tick_mstr ::
  "engine \<Rightarrow> network \<Rightarrow> nat \<Rightarrow> strategy_state \<Rightarrow> strategy_state" where
  "interval_tick_mstr eng net now st =
     fetchMSTRData eng net now (previousPrice initial_strategy_state) False st"

section \<open>Screen state\<close>

record BitcoinPerformanceData =
  currentPrice :: jsnum
  previousPrice :: jsnum
  priceChange :: jsnum
  priceChangePercent :: jsnum
  high24h :: jsnum
  low24h :: jsnum
  volume24h :: jsnum
  marketCap :: jsnum
  yearlyChange :: jsnum
  yearlyChangePercent :: jsnum
  priceOneYearAgo :: jsnum

text \<open>\<open>datasets\<close> is a one-element tuple; \<open>data\<close> is the \<open>data\<close> of its element.\<close>

record ChartData =
  labels :: "string list"
  data :: "jsnum list"

datatype TimeInterval = I1D | I1W | I1M | I1Y | IALL

text \<open>
  The state cells of \<open>HomeScreen\<close> (\<open>useState\<close>), with the timers the screen has
  scheduled. \<open>lastUpdated\<close> is the clock reading of \<open>new Date()\<close>.
\<close>

record home_state =
  price :: "jsnum option"
  previousPrice :: "jsnum option"
  loading :: bool
  lastUpdated :: "nat option"
  priceColor :: "string option"
  performanceData :: "BitcoinPerformanceData option"
  error :: "string option"
  timers :: "(nat \<times> timer_action) list"

text \<open>The screen with the chart adds three cells.\<close>

record chart_state = home_state +
  chartData :: "ChartData option"
  selectedInterval :: TimeInterval
  chartLoading :: bool

section \<open>The chart fetch\<close>

text \<open>\<open>xs.filter((_, index) => p(index))\<close>, the index counted from \<open>i\<close>.\<close>

fun filter_index :: "(nat \<Rightarrow> bool) \<Rightarrow> nat \<Rightarrow> 'a list \<Rightarrow> 'a list" where
  "filter_index p i [] = []"
| "filter_index p i (x # xs) =
     (if p i then x # filter_index p (Suc i) xs else filter_index p (Suc i) xs)"

text \<open>
  The two lines every CoinGecko branch repeats with its own target count (12, 10, 8,
  12, 15):
  \<^verbatim>\<open>const step = Math.max(1, Math.ceil(prices.length / target));
  processedPrices = prices.filter((_, index) => index % step === 0);\<close>
  The target is a positive literal in the source. The quotient of an array length by
  it is rounded, but to a double with the same ceiling: the exact quotient is an
  integer, which is a double, or it is at least \<open>1 / target\<close> away from every
  integer, which is more than the rounding moves it (an array length is below
  \<open>2 ^ 32\<close>).
\<close>

definition stride :: "nat \<Rightarrow> nat \<Rightarrow> nat" where
  "stride target len = max 1 (nat \<lceil>real len / real target\<rceil>)"

definition downsample :: "nat \<Rightarrow> 'a list \<Rightarrow> 'a list" where
  "downsample target ps =
     (let step = stride target (length ps)
      in filter_index (\<lambda>index. index mod step = 0) 0 ps)"

text \<open>The labels of the Gemini branch, by index.\<close>

definition gemini_label :: "nat \<Rightarrow> string" where
  "gemini_label index =
     (let hoursAgo = 23 - int index
      in if hoursAgo = 0 then ''Now''
         else if hoursAgo mod 6 = 0 then show_int hoursAgo @ ''h''
         else '''')"

text \<open>
  The inner \<open>try\<close> of the 1D branch: the ticker's \<open>changes\<close>, reversed in place, with
  one label and one parsed value per element.
\<close>

definition gemini_chart :: "engine \<Rightarrow> gemini_ticker_t response \<Rightarrow> ChartData response" where
  "gemini_chart eng resp =
     (case resp of
        Inl e \<Rightarrow> Inl e
      | Inr d \<Rightarrow>
          (case changes d of
             None \<Rightarrow> Inl (ErrorInstance ''No Gemini data available'')
           | Some cs \<Rightarrow>
               if length cs > 0 then
                 (let prices = rev cs
                  in Inr \<lparr>labels = map gemini_label [0..<length prices],
                          data = map (parseFloat eng) prices\<rparr>)
               else Inl (ErrorInstance ''No Gemini data available'')))"

text \<open>
  A CoinGecko branch: the guard on \<open>prices\<close>, then the stride sample, its labels and its
  values. \<open>pre\<close> is what the branch does before sampling (it may raise).
\<close>

definition coingecko_chart ::
  "((jsnum \<times> jsnum) list \<Rightarrow> js_exn option) \<Rightarrow> nat \<Rightarrow> (jsnum \<Rightarrow> string) \<Rightarrow>
   BitcoinHistoricalData response \<Rightarrow> ChartData response" where
  "coingecko_chart pre target label resp =
     (case resp of
        Inl e \<Rightarrow> Inl e
      | Inr d \<Rightarrow>
          (case prices d of
             None \<Rightarrow> Inl (ErrorInstance ''No chart data available'')
           | Some ps \<Rightarrow>
               if length ps = 0 then Inl (ErrorInstance ''No chart data available'')
               else
                 (case pre ps of
                    Some e \<Rightarrow> Inl e
                  | None \<Rightarrow>
                      (let processedPrices = downsample target ps
                       in Inr \<lparr>labels = map (\<lambda>item. label (fst item)) processedPrices,
                               data = map snd processedPrices\<rparr>))))"

text \<open>
  The 1W branch logs before sampling: the first and the last timestamp through
  \<open>toISOString\<close>, which raises on an invalid date, then the price range,
  \<^verbatim>\<open>Math.min(...processedPrices.map(p => p[1]))\<close> and the same with \<open>Math.max\<close>,
  which raises when the whole series does not fit in one call. The other branches do
  nothing before sampling.
\<close>

definition log_1W :: "engine \<Rightarrow> (jsnum \<times> jsnum) list \<Rightarrow> js_exn option" where
  "log_1W eng ps =
     (if valid_time (fst (hd ps)) \<and> valid_time (fst (last ps)) then spread eng (length ps)
      else Some (ErrorInstance (rangeErrorMessage eng)))"

definition no_log :: "(jsnum \<times> jsnum) list \<Rightarrow> js_exn option" where
  "no_log ps = None"

fun dayMap :: "TimeInterval \<Rightarrow> string" where
  "dayMap I1W = ''7''"
| "dayMap I1M = ''30''"
| "dayMap I1Y = ''365''"
| "dayMap IALL = ''max''"
| "dayMap I1D = ''undefined''"

text \<open>
  The body of the outer \<open>try\<close>: the requests made, in order, and the chart data or the
  exception that reaches the outer \<open>catch\<close>.
\<close>

definition chart_attempt ::
  "engine \<Rightarrow> network \<Rightarrow> TimeInterval \<Rightarrow> endpoint list \<times> ChartData response" where
  "chart_attempt eng net interval =
     (if interval = I1D then
        (case gemini_chart eng (gemini_ticker net) of
           Inr c \<Rightarrow> ([GeminiTicker], Inr c)
         | Inl geminiError \<Rightarrow>
             ([GeminiTicker, MarketChart ''1''],
              coingecko_chart no_log 12 (localeTime eng) (market_chart net ''1'')))
      else
        (let days = dayMap interval
         in ([MarketChart days],
             (if interval = I1W then
                coingecko_chart (log_1W eng) 10 (localeMonthDay eng) (market_chart net days)
              else if interval = I1M then
                coingecko_chart no_log 8 (localeMonthDay eng) (market_chart net days)
              else if interval = I1Y then
                coingecko_chart no_log 12 (localeMonthYear eng) (market_chart net days)
              else
                coingecko_chart no_log 15 (fullYear eng) (market_chart net days)))))"

text \<open>
  \<open>fetchChartData\<close>: the new state and the requests made. Whatever is raised is caught;
  \<open>finally\<close> clears \<open>chartLoading\<close>.
\<close>

definition fetchChartData ::
  "engine \<Rightarrow> network \<Rightarrow> TimeInterval \<Rightarrow> chart_state \<Rightarrow> chart_state \<times> endpoint list" where
  "fetchChartData eng net interval st =
     (let (requests, result) = chart_attempt eng net interval
      in (case result of
            Inr c \<Rightarrow> st\<lparr>chartData := Some c, chartLoading := False\<rparr>
          | Inl e \<Rightarrow> st\<lparr>chartData := None, chartLoading := False\<rparr>,
          requests))"

text \<open>What \<open>renderChart\<close> shows.\<close>

datatype chart_view = ChartSpinner | ChartUnavailable | LineChart ChartData

definition renderChart :: "chart_state \<Rightarrow> chart_view" where
  "renderChart st =
     (if chartLoading st then ChartSpinner
      else (case chartData st of
              None \<Rightarrow> ChartUnavailable
            | Some c \<Rightarrow> if length (data c) = 0 then ChartUnavailable else LineChart c))"

section \<open>The price fetch of the home screen\<close>

text \<open>
  The comparison with the held price, as every screen repeats it:
  \<^verbatim>\<open>if (price !== null && newPrice !== price) {
    if (newPrice > price) setPriceColor('#22C55E');
    else if (newPrice < price) setPriceColor('#EF4444');
    setTimeout(() => { setPriceColor(null); }, 2000);
  }\<close>
  \<open>heldPrice\<close> is the \<open>price\<close> the function closes over: the value the state
  cell had in the render that created the function.
\<close>

definition flash ::
  "jsnum option \<Rightarrow> jsnum \<Rightarrow> 'a home_state_scheme \<Rightarrow> 'a home_state_scheme" where
  "flash heldPrice newPrice st =
     (case heldPrice of
        None \<Rightarrow> st
      | Some p \<Rightarrow>
          if \<not> strict_eq newPrice p then
            (let st1 = (if num_gt newPrice p then st\<lparr>priceColor := Some ''#22C55E''\<rparr>
                        else if num_lt newPrice p then st\<lparr>priceColor := Some ''#EF4444''\<rparr>
                        else st)
             in st1\<lparr>timers := timers st1 @ [(2000, ClearPriceColor)]\<rparr>)
          else st)"

text \<open>The callback of a timer, run when the timer fires.\<close>

fun fire :: "timer_action \<Rightarrow> 'a home_state_scheme \<Rightarrow> 'a home_state_scheme" where
  "fire ClearPriceColor st = st\<lparr>priceColor := None\<rparr>"

text \<open>
  The detailed strategy (\<open>index.tsx\<close>, and the same function in the screen with the
  chart): the body of the \<open>try\<close> up to the snapshot. The result is the new price with
  the snapshot, or the exception that reaches the \<open>catch\<close>.
\<close>

definition yearly_part ::
  "engine \<Rightarrow> jsnum \<Rightarrow> BitcoinHistoricalData response \<Rightarrow>
   js_exn + (jsnum \<times> jsnum \<times> jsnum)" where
  "yearly_part eng newPrice resp =
     (case resp of
        Inl e \<Rightarrow> Inl e
      | Inr yearlyData \<Rightarrow>
          (case prices yearlyData of
             None \<Rightarrow> Inl (ErrorInstance ''No historical data available'')
           | Some ps \<Rightarrow>
               if length ps = 0 then Inl (ErrorInstance ''No historical data available'')
               else
                 (let priceOneYearAgo = snd (ps ! 0);
                      yearlyChange = num_sub (roundNearest eng) newPrice priceOneYearAgo;
                      yearlyChangePercent =
                        num_mul (roundNearest eng)
                          (num_div (roundNearest eng) yearlyChange priceOneYearAgo) (Fin 100)
                  in Inr (priceOneYearAgo, yearlyChange, yearlyChangePercent))))"

definition detailed_attempt ::
  "engine \<Rightarrow> network \<Rightarrow> js_exn + (jsnum \<times> BitcoinPerformanceData)" where
  "detailed_attempt eng net =
     (case coin_detail net of
        Inl e \<Rightarrow> Inl e
      | Inr detailedData \<Rightarrow>
     (case market_data detailedData of
        None \<Rightarrow> Inl (ErrorInstance ''Market data not available'')
      | Some marketData \<Rightarrow>
     (case current_price marketData of
        None \<Rightarrow> Inl (typeError eng ''usd'')
      | Some newPrice \<Rightarrow>
     (let priceChange = or_zero (price_change_24h marketData);
          priceChangePercent = or_zero (price_change_percentage_24h marketData)
      in
     (case high_24h marketData of
        None \<Rightarrow> Inl (typeError eng ''usd'')
      | Some high24h' \<Rightarrow>
     (case low_24h marketData of
        None \<Rightarrow> Inl (typeError eng ''usd'')
      | Some low24h' \<Rightarrow>
     (case total_volume marketData of
        None \<Rightarrow> Inl (typeError eng ''usd'')
      | Some volume24h' \<Rightarrow>
     (case market_cap marketData of
        None \<Rightarrow> Inl (typeError eng ''usd'')
      | Some marketCap' \<Rightarrow>
     (case yearly_part eng newPrice (market_chart net ''365'') of
        Inl e \<Rightarrow> Inl e
      | Inr (priceOneYearAgo', yearlyChange', yearlyChangePercent') \<Rightarrow>
          Inr (newPrice,
            \<lparr>currentPrice = newPrice,
             previousPrice = num_sub (roundNearest eng) newPrice priceChange,
             priceChange = priceChange,
             priceChangePercent = priceChangePercent,
             high24h = high24h',
             low24h = low24h',
             volume24h = volume24h',
             marketCap = marketCap',
             yearlyChange = yearlyChange',
             yearlyChangePercent = yearlyChangePercent',
             priceOneYearAgo = priceOneYearAgo'\<rparr>))))))))))"

text \<open>
  What follows the snapshot, the \<open>catch\<close> and the \<open>finally\<close>, shared by the two
  strategies. \<open>now\<close> is the clock read by \<open>new Date()\<close>.
\<close>

definition publish ::
  "nat \<Rightarrow> jsnum option \<Rightarrow> bool \<Rightarrow> js_exn + (jsnum \<times> BitcoinPerformanceData) \<Rightarrow>
   'a home_state_scheme \<Rightarrow> 'a home_state_scheme" where
  "publish now heldPrice isInitialLoad attempt st =
     (let st1 = (if isInitialLoad then st\<lparr>loading := True\<rparr> else st);
          st2 = st1\<lparr>error := None\<rparr>;
          st3 = (case attempt of
                   Inr (newPrice, newPerformanceData) \<Rightarrow>
                     (flash heldPrice newPrice st2)
                       \<lparr>home_state.previousPrice := heldPrice,
                        price := Some newPrice,
                        performanceData := Some newPerformanceData,
                        lastUpdated := Some now\<rparr>
                 | Inl e \<Rightarrow> st2\<lparr>error := Some (message_of e)\<rparr>)
      in if isInitialLoad then st3\<lparr>loading := False\<rparr> else st3)"

definition fetchBitcoinData ::
  "engine \<Rightarrow> network \<Rightarrow> nat \<Rightarrow> jsnum option \<Rightarrow> bool \<Rightarrow>
   'a home_state_scheme \<Rightarrow> 'a home_state_scheme" where
  "fetchBitcoinData eng net now heldPrice isInitialLoad st =
     publish now heldPrice isInitialLoad (detailed_attempt eng net) st"

text \<open>
  The self-derived strategy: everything from the one 365-day series. The last 48
  points at most are spread into \<open>Math.max\<close> and \<open>Math.min\<close>.
  \<open>prices[prices.length - 2]\<close> is \<open>undefined\<close> on a series of one point, and reading
  its \<open>[1]\<close> raises; so does \<open>marketCaps[marketCaps.length - 1][1]\<close> on an absent or
  empty \<open>market_caps\<close>, and the same for \<open>total_volumes\<close>.
\<close>

definition derived_attempt ::
  "engine \<Rightarrow> network \<Rightarrow> js_exn + (jsnum \<times> BitcoinPerformanceData)" where
  "derived_attempt eng net =
     (case market_chart net ''365'' of
        Inl e \<Rightarrow> Inl e
      | Inr yearlyData \<Rightarrow>
     (case prices yearlyData of
        None \<Rightarrow> Inl (ErrorInstance ''No historical data available'')
      | Some ps \<Rightarrow>
     if length ps = 0 then Inl (ErrorInstance ''No historical data available'')
     else
     (let newPrice = snd (ps ! (length ps - 1));
          last24hPrices = drop (length ps - 48) ps;
          high24h = Math_max (map snd last24hPrices);
          low24h = Math_min (map snd last24hPrices)
      in
     (case spread eng (length last24hPrices) of
        Some e \<Rightarrow> Inl e
      | None \<Rightarrow>
     if \<not> length ps > 48 \<and> length ps < 2 then Inl (typeError eng ''1'')
     else
     (let previousPriceValue =
            (if length ps > 48 then snd (ps ! (length ps - 48))
             else snd (ps ! (length ps - 2)));
          priceChange = num_sub (roundNearest eng) newPrice previousPriceValue;
          priceChangePercent =
            num_mul (roundNearest eng)
              (num_div (roundNearest eng) priceChange previousPriceValue) (Fin 100);
          priceOneYearAgo = snd (ps ! 0);
          yearlyChange = num_sub (roundNearest eng) newPrice priceOneYearAgo;
          yearlyChangePercent =
            num_mul (roundNearest eng)
              (num_div (roundNearest eng) yearlyChange priceOneYearAgo) (Fin 100)
      in
     (case market_caps yearlyData of
        None \<Rightarrow> Inl (typeError eng ''length'')
      | Some marketCaps \<Rightarrow>
     if length marketCaps = 0 then Inl (typeError eng ''1'')
     else
     (case total_volumes yearlyData of
        None \<Rightarrow> Inl (typeError eng ''length'')
      | Some volumes \<Rightarrow>
     if length volumes = 0 then Inl (typeError eng ''1'')
     else
       Inr (newPrice,
         \<lparr>currentPrice = newPrice,
          previousPrice = previousPriceValue,
          priceChange = priceChange,
          priceChangePercent = priceChangePercent,
          high24h = high24h,
          low24h = low24h,
          volume24h = snd (volumes ! (length volumes - 1)),
          marketCap = snd (marketCaps ! (length marketCaps - 1)),
          yearlyChange = yearlyChange,
          yearlyChangePercent = yearlyChangePercent,
          priceOneYearAgo = priceOneYearAgo\<rparr>))))))))"

definition fetchBitcoinData_derived ::
  "engine \<Rightarrow> network \<Rightarrow> nat \<Rightarrow> jsnum option \<Rightarrow> bool \<Rightarrow>
   'a home_state_scheme \<Rightarrow> 'a home_state_scheme" where
  "fetchBitcoinData_derived eng net now heldPrice isInitialLoad st =
     publish now heldPrice isInitialLoad (derived_attempt eng net) st"

subsection \<open>The screen's effect\<close>

text \<open>
  \<^verbatim>\<open>useEffect(() => {
    fetchBitcoinData(true);
    const interval = setInterval(() => fetchBitcoinData(false), 120000);
    return () => clearInterval(interval);
  }, []);\<close>
  The dependency list is empty, so the effect runs once, after the first render. Both
  calls are calls of the \<open>fetchBitcoinData\<close> which that render created, and the
  \<open>price\<close> it closes over is the cell's initial value, whatever the cell holds when
  the interval fires.
\<close>

definition initial_home_state :: home_state where
  "initial_home_state =
     \<lparr>price = None, home_state.previousPrice = None, loading = True, lastUpdated = None,
      priceColor = None, performanceData = None, error = None, timers = []\<rparr>"

definition first_load :: "engine \<Rightarrow> network \<Rightarrow> nat \<Rightarrow> home_state \<Rightarrow> home_state" where
  "first_load eng net now st =
     fetchBitcoinData eng net now (price initial_home_state) True st"

definition interval_tick :: "engine \<Rightarrow> network \<Rightarrow> nat \<Rightarrow> home_state \<Rightarrow> home_state" where
  "interval_tick eng net now st =
     fetchBitcoinData eng net now (price initial_home_state) False st"

section \<open>Sample inputs\<close>

text \<open>
  An engine for the examples. Its rounding is given on the reals that are an integer
  below \<open>2 ^ 53\<close> over 1024: each is a double, so that its rounding is itself. The
  numbers of the examples are chosen to stay among them. \<open>parseFloat\<close> is given on
  the strings the examples hold, with the values JavaScript gives them.
\<close>

definition sample_round :: rounding where
  "sample_round x =
     (if real_of_int \<lfloor>x * 1024\<rfloor> = x * 1024 \<and> \<bar>x * 1024\<bar> < 2 ^ 53 then Fin x else NaN)"

definition sample_parseFloat :: "string \<Rightarrow> jsnum" where
  "sample_parseFloat s =
     (if s = ''0.0000'' then Fin 0
      else if s = ''-0.0000'' then NegZero
      else if s = ''398.5000'' then Fin (797 / 2)
      else if s = ''400.0000'' then Fin 400
      else if s = ''410.0000'' then Fin 410
      else if s = ''390.0000'' then Fin 390
      else if s = ''320.0000'' then Fin 320
      else if s = ''328.0000'' then Fin 328
      else if s = ''67000.5'' then Fin (134001 / 2)
      else if s = ''66800'' then Fin 66800
      else if s = ''66500.25'' then Fin (266001 / 4)
      else NaN)"

definition sample_engine :: engine where
  "sample_engine =
     \<lparr>roundNearest = sample_round,
      parseFloat = sample_parseFloat,
      typeErrorMessage = (\<lambda>property. ''Cannot read property '' @ property @ '' of undefined''),
      rangeErrorMessage = ''Invalid time value'',
      spreadFits = (\<lambda>n. n \<le> 65535),
      spreadErrorMessage = ''Maximum call stack size exceeded'',
      localeTime = (\<lambda>t. ''12:00 PM''),
      localeMonthDay = (\<lambda>t. ''Jan 1''),
      localeMonthYear = (\<lambda>t. ''Jan 24''),
      fullYear = (\<lambda>t. ''2024'')\<rparr>"

text \<open>The same engine with a \<open>parseFloat\<close> that answers \<open>NaN\<close> to every string.\<close>

definition nan_engine :: engine where
  "nan_engine = sample_engine\<lparr>parseFloat := (\<lambda>s. NaN)\<rparr>"

text \<open>No endpoint answers.\<close>

definition offline :: network where
  "offline =
     \<lparr>gemini_ticker = Inl (ErrorInstance ''Network request failed''),
      market_chart = (\<lambda>days. Inl (ErrorInstance ''Network request failed'')),
      coin_detail = Inl (ErrorInstance ''Network request failed''),
      alpha_vantage = Inl (ErrorInstance ''Network request failed'')\<rparr>"

definition series_of :: "(jsnum \<times> jsnum) list \<Rightarrow> BitcoinHistoricalData" where
  "series_of ps =
     \<lparr>prices = Some ps,
      market_caps = Some [(Fin 1700000000000, Fin 1000000000000)],
      total_volumes = Some [(Fin 1700000000000, Fin 30000000000)]\<rparr>"

text \<open>A year that starts at 32000 and ends at 40000, then 50000.\<close>

definition year_series :: "(jsnum \<times> jsnum) list" where
  "year_series =
     [(Fin 1700000000000, Fin 32000), (Fin 1700003600000, Fin 40000),
      (Fin 1700007200000, Fin 50000)]"

text \<open>
  The provider reports the current price and the 24h change, and leaves the 24h
  percentage out.
\<close>

definition detail_of :: "jsnum \<Rightarrow> jsnum option \<Rightarrow> jsnum option \<Rightarrow> detailedData_t" where
  "detail_of current change percentage =
     \<lparr>market_data = Some
        \<lparr>current_price = Some current,
         price_change_24h = change,
         price_change_percentage_24h = percentage,
         high_24h = Some (Fin 52000),
         low_24h = Some (Fin 49000),
         total_volume = Some (Fin 30000000000),
         market_cap = Some (Fin 1000000000000)\<rparr>\<rparr>"

definition net_no_percentage :: network where
  "net_no_percentage =
     offline\<lparr>coin_detail := Inr (detail_of (Fin 50000) (Some (Fin 10000)) None),
             market_chart := (\<lambda>days. Inr (series_of year_series))\<rparr>"

text \<open>Two successive answers of the provider: 50000, then 51000.\<close>

definition net_50000 :: network where
  "net_50000 =
     offline\<lparr>coin_detail := Inr (detail_of (Fin 50000) (Some (Fin 500)) (Some (Fin 1))),
             market_chart := (\<lambda>days. Inr (series_of year_series))\<rparr>"

definition net_51000 :: network where
  "net_51000 =
     offline\<lparr>coin_detail := Inr (detail_of (Fin 51000) (Some (Fin 1000)) (Some (Fin 2))),
             market_chart := (\<lambda>days. Inr (series_of year_series))\<rparr>"

text \<open>The provider answers without \<open>market_data\<close>.\<close>

definition net_no_market_data :: network where
  "net_no_market_data =
     offline\<lparr>coin_detail := Inr \<lparr>market_data = None\<rparr>,
             market_chart := (\<lambda>days. Inr (series_of year_series))\<rparr>"

text \<open>A series whose point before the last has the price zero.\<close>

definition net_zero_previous :: network where
  "net_zero_previous =
     offline\<lparr>market_chart :=
       (\<lambda>days. Inr (series_of [(Fin 1700000000000, Fin 0), (Fin 1700003600000, Fin 5)]))\<rparr>"

definition net_year :: network where
  "net_year = offline\<lparr>market_chart := (\<lambda>days. Inr (series_of year_series))\<rparr>"

text \<open>A state that holds the data of an earlier successful cycle.\<close>

definition held_state :: home_state where
  "held_state =
     \<lparr>price = Some (Fin 50000), home_state.previousPrice = None, loading = False,
      lastUpdated = Some 1000, priceColor = None,
      performanceData = None, error = None, timers = []\<rparr>"

text \<open>
  Equity payloads: two days, one day, the day before closing at zero or at the
  negative zero, and a soft error.
\<close>

definition day_of :: "string \<Rightarrow> string \<Rightarrow> daily_t" where
  "day_of opening closing =
     \<lparr>open_1 = opening, high_2 = ''410.0000'', low_3 = ''390.0000'', close_4 = closing,
      volume_5 = ''1200000''\<rparr>"

definition alpha_of :: "(string \<times> daily_t) list \<Rightarrow> AlphaVantageResponse" where
  "alpha_of days =
     \<lparr>has_Error_Message = False, has_Note = False,
      Meta_Data = Some \<lparr>symbol_2 = ''MSTR'', last_refreshed_3 = ''2024-01-03''\<rparr>,
      Time_Series_Daily = Some days\<rparr>"

definition two_days :: "(string \<times> daily_t) list" where
  "two_days =
     [(''2024-01-03'', day_of ''398.5000'' ''410.0000''),
      (''2024-01-02'', day_of ''320.0000'' ''328.0000'')]"

definition one_day :: "(string \<times> daily_t) list" where
  "one_day = [(''2024-01-03'', day_of ''328.0000'' ''410.0000'')]"

definition zero_close_days :: "(string \<times> daily_t) list" where
  "zero_close_days =
     [(''2024-01-03'', day_of ''398.5000'' ''410.0000''),
      (''2024-01-02'', day_of ''390.0000'' ''0.0000'')]"

definition negative_zero_close_days :: "(string \<times> daily_t) list" where
  "negative_zero_close_days =
     [(''2024-01-03'', day_of ''398.5000'' ''410.0000''),
      (''2024-01-02'', day_of ''390.0000'' ''-0.0000'')]"

definition earlier_day :: "(string \<times> daily_t) list" where
  "earlier_day = [(''2024-01-02'', day_of ''320.0000'' ''400.0000'')]"

definition net_earlier_day :: network where
  "net_earlier_day = offline\<lparr>alpha_vantage := Inr (alpha_of earlier_day)\<rparr>"

definition net_two_days :: network where
  "net_two_days = offline\<lparr>alpha_vantage := Inr (alpha_of two_days)\<rparr>"

definition net_zero_close :: network where
  "net_zero_close = offline\<lparr>alpha_vantage := Inr (alpha_of zero_close_days)\<rparr>"

definition net_negative_zero_close :: network where
  "net_negative_zero_close = offline\<lparr>alpha_vantage := Inr (alpha_of negative_zero_close_days)\<rparr>"

definition net_one_day :: network where
  "net_one_day = offline\<lparr>alpha_vantage := Inr (alpha_of one_day)\<rparr>"

definition net_note :: network where
  "net_note =
     offline\<lparr>alpha_vantage := Inr
       \<lparr>has_Error_Message = False, has_Note = True, Meta_Data = None,
        Time_Series_Daily = None\<rparr>\<rparr>"

definition held_strategy_state :: strategy_state where
  "held_strategy_state =
     \<lparr>mstrData = None, strategy_state.previousPrice = Some (Fin 400),
      strategy_state.loading = False, strategy_state.lastUpdated = Some 1000,
      strategy_state.priceColor = None, strategy_state.error = None,
      strategy_state.timers = []\<rparr>"

text \<open>Chart inputs: seventeen hourly points, and a ticker of three changes.\<close>

definition sample_series :: "(jsnum \<times> jsnum) list" where
  "sample_series =
     map (\<lambda>k. (Fin (1700000000000 + 3600000 * real k), Fin (50000 + real k))) [0..<17]"

definition net_gemini :: network where
  "net_gemini =
     offline\<lparr>gemini_ticker := Inr \<lparr>changes = Some [''67000.5'', ''66800'', ''66500.25'']\<rparr>,
             market_chart := (\<lambda>days. Inr (series_of sample_series))\<rparr>"

definition net_gemini_empty :: network where
  "net_gemini_empty =
     offline\<lparr>gemini_ticker := Inr \<lparr>changes = Some []\<rparr>,
             market_chart := (\<lambda>days. Inr (series_of sample_series))\<rparr>"

definition net_no_prices :: network where
  "net_no_prices =
     offline\<lparr>gemini_ticker := Inr \<lparr>changes = Some []\<rparr>,
             market_chart := (\<lambda>days. Inr (series_of []))\<rparr>"

definition initial_chart_state :: chart_state where
  "initial_chart_state =
     \<lparr>price = None, home_state.previousPrice = None, loading = True, lastUpdated = None,
      priceColor = None, performanceData = None, error = None, timers = [],
      chartData = None, selectedInterval = I1D, chartLoading = False\<rparr>"

section \<open>Zeros and infinities\<close>

lemma is_zero_simps [simp]:
  "is_zero (Fin x) = (x = 0)" "is_zero NegZero" "\<not> is_zero PosInf" "\<not> is_zero NegInf"
  "\<not> is_zero NaN"
  by (simp_all add: is_zero_def)

lemma is_infinite_simps [simp]:
  "\<not> is_infinite (Fin x)" "\<not> is_infinite NegZero" "is_infinite PosInf" "is_infinite NegInf"
  "\<not> is_infinite NaN"
  by (simp_all add: is_infinite_def)

lemma zero_of_simps [simp]: "zero_of True = NegZero" "zero_of False = Fin 0"
  by (simp_all add: zero_of_def)

lemma infinity_of_simps [simp]: "infinity_of True = NegInf" "infinity_of False = PosInf"
  by (simp_all add: infinity_of_def)

lemma num_lt_irrefl [simp]: "\<not> num_lt a a"
  by (cases a) simp_all

lemma strict_eq_refl: "strict_eq a a = (a \<noteq> NaN)"
  by (simp add: strict_eq_def)


section \<open>The stride sampler\<close>

lemma stride_pos: "0 < stride target len" by (simp add: stride_def)

lemma below_ceiling_iff:
  assumes "0 < s"
  shows "j < nat \<lceil>real n / real s\<rceil> \<longleftrightarrow> j * s < n"
proof -
  have "j < nat \<lceil>real n / real s\<rceil> \<longleftrightarrow> int j < \<lceil>real n / real s\<rceil>"
    by (simp add: zless_nat_eq_int_zless)
  also have "\<dots> \<longleftrightarrow> real j < real n / real s"
    by (simp add: less_ceiling_iff)
  also have "\<dots> \<longleftrightarrow> real j * real s < real n"
    using assms by (simp add: pos_less_divide_eq)
  also have "\<dots> \<longleftrightarrow> real (j * s) < real n"
    by simp
  also have "\<dots> \<longleftrightarrow> j * s < n"
    by (rule of_nat_less_iff)
  finally show ?thesis .
qed

lemma filter_index_subseq: "subseq (filter_index p i xs) xs"
  by (induction xs arbitrary: i) auto

lemma filter_index_upt:
  "filter_index p i xs = map (\<lambda>k. xs ! (k - i)) (filter p [i..<i + length xs])"
proof (induction xs arbitrary: i)
  case Nil
  then show ?case by simp
next
  case (Cons x xs)
  have upt: "[i..<i + length (x # xs)] = i # [Suc i..<Suc i + length xs]"
    by (simp add: upt_rec)
  have shift: "map (\<lambda>k. (x # xs) ! (k - i)) (filter p [Suc i..<Suc i + length xs])
             = map (\<lambda>k. xs ! (k - Suc i)) (filter p [Suc i..<Suc i + length xs])"
  proof (rule map_cong)
    fix k
    assume "k \<in> set (filter p [Suc i..<Suc i + length xs])"
    then have "Suc i \<le> k" by auto
    then have "k - i = Suc (k - Suc i)" by arith
    then show "(x # xs) ! (k - i) = xs ! (k - Suc i)" by simp
  qed simp
  show ?case
    unfolding upt using Cons[of "Suc i"] shift by simp
qed

lemma multiples_below:
  assumes "0 < s"
  shows "filter (\<lambda>i. i mod s = 0) [0..<n] = map (\<lambda>j. j * s) [0..<nat \<lceil>real n / real s\<rceil>]"
proof (induction n)
  case 0
  then show ?case by simp
next
  case (Suc n)
  let ?c = "\<lambda>m. nat \<lceil>real m / real s\<rceil>"
  have step: "?c (Suc n) = (if n mod s = 0 then Suc (?c n) else ?c n)"
  proof (cases "n mod s = 0")
    case True
    then have "s dvd n" by (simp add: mod_eq_0_iff_dvd)
    then obtain k where k: "n = k * s" by (auto simp: dvd_def mult.commute)
    have "\<And>j. j < ?c n \<longleftrightarrow> j < k" using below_ceiling_iff[OF assms] k assms by simp
    then have ck: "?c n = k" by (metis nat_neq_iff)
    have "\<And>j. j < ?c (Suc n) \<longleftrightarrow> j < Suc k"
      using below_ceiling_iff[OF assms, of _ "Suc n"] k assms
      by (metis less_Suc_eq_le mult_le_cancel2 not_less)
    then have "?c (Suc n) = Suc k" by (metis nat_neq_iff)
    with ck True show ?thesis by simp
  next
    case False
    have "\<And>j. j < ?c (Suc n) \<longleftrightarrow> j < ?c n"
    proof -
      fix j
      have "j * s \<noteq> n" using False by auto
      then have eq: "j * s < Suc n \<longleftrightarrow> j * s < n" by auto
      have "j < ?c (Suc n) \<longleftrightarrow> j * s < Suc n" by (rule below_ceiling_iff[OF assms])
      also have "\<dots> \<longleftrightarrow> j * s < n" by (rule eq)
      also have "\<dots> \<longleftrightarrow> j < ?c n" by (rule below_ceiling_iff[OF assms, symmetric])
      finally show "j < ?c (Suc n) \<longleftrightarrow> j < ?c n" .
    qed
    then have "?c (Suc n) = ?c n" by (metis nat_neq_iff)
    with False show ?thesis by simp
  qed
  show ?case
  proof (cases "n mod s = 0")
    case True
    then have "s dvd n" by (simp add: mod_eq_0_iff_dvd)
    then obtain k where k: "n = k * s" by (auto simp: dvd_def mult.commute)
    have "\<And>j. j < ?c n \<longleftrightarrow> j < k" using below_ceiling_iff[OF assms] k assms by simp
    then have ck: "?c n = k" by (metis nat_neq_iff)
    show ?thesis using Suc True step ck k by simp
  next
    case False
    then show ?thesis using Suc step by simp
  qed
qed

lemma downsample_conv:
  "downsample target ps =
     map (\<lambda>j. ps ! (j * stride target (length ps)))
       [0..<nat \<lceil>real (length ps) / real (stride target (length ps))\<rceil>]"
proof -
  let ?s = "stride target (length ps)"
  have "downsample target ps = map (\<lambda>k. ps ! k) (filter (\<lambda>i. i mod ?s = 0) [0..<length ps])"
    using filter_index_upt[of "\<lambda>i. i mod ?s = 0" 0 ps] by (simp add: downsample_def Let_def)
  also have "\<dots> = map (\<lambda>k. ps ! k) (map (\<lambda>j. j * ?s) [0..<nat \<lceil>real (length ps) / real ?s\<rceil>])"
    using multiples_below[OF stride_pos] by simp
  finally show ?thesis by (simp add: comp_def)
qed

text \<open>
  C2. With \<open>step = max(1, ceil(L / T))\<close> for a series of length \<open>L\<close> and a positive
  target \<open>T\<close>, the sampler keeps exactly the elements whose index is divisible by
  \<open>step\<close>, in their order: the output has \<open>ceil(L / step)\<close> elements, its
  \<open>j\<close>-th element is the input's element \<open>j * step\<close>, unchanged, and it is a
  subsequence of the input.
\<close>

theorem downsample_stride:
  assumes "0 < target"
    and "step = max 1 (nat \<lceil>real (length ps) / real target\<rceil>)"
  shows "downsample target ps = map (\<lambda>i. ps ! i) (filter (\<lambda>i. i mod step = 0) [0..<length ps])
       \<and> length (downsample target ps) = nat \<lceil>real (length ps) / real step\<rceil>
       \<and> (\<forall>j < length (downsample target ps). downsample target ps ! j = ps ! (j * step))
       \<and> subseq (downsample target ps) ps"
proof -
  have s: "step = stride target (length ps)" using assms(2) by (simp add: stride_def)
  have a: "downsample target ps = map (\<lambda>i. ps ! i) (filter (\<lambda>i. i mod step = 0) [0..<length ps])"
    using filter_index_upt[of "\<lambda>i. i mod step = 0" 0 ps] s by (simp add: downsample_def Let_def)
  have b: "length (downsample target ps) = nat \<lceil>real (length ps) / real step\<rceil>"
    using downsample_conv[of target ps] s by simp
  have c: "\<forall>j < length (downsample target ps). downsample target ps ! j = ps ! (j * step)"
    using downsample_conv[of target ps] s by (metis (no_types, lifting) add_0 b length_map nth_map nth_upt length_upt diff_zero)
  have d: "subseq (downsample target ps) ps"
    by (simp add: downsample_def Let_def filter_index_subseq)
  from a b c d show ?thesis by blast
qed

lemma sample_series_length: "length sample_series = 17"
  by (simp add: sample_series_def)

lemma multiples_of_3: "filter (\<lambda>i. i mod 3 = 0) [0..<17] = [0, 3, 6, 9, 12, 15::nat]"
  by code_simp

text \<open>Seventeen points and the target 8: the step is 3 and six points are kept.\<close>

theorem downsample_stride_witness:
  "(0::nat) < 8
   \<and> max 1 (nat \<lceil>real (length sample_series) / real 8\<rceil>) = 3
   \<and> length (downsample 8 sample_series) = 6
   \<and> map snd (downsample 8 sample_series) =
        [Fin 50000, Fin 50003, Fin 50006, Fin 50009, Fin 50012, Fin 50015]
   \<and> subseq (downsample 8 sample_series) sample_series"
proof -
  have step: "(3::nat) = max 1 (nat \<lceil>real (length sample_series) / real 8\<rceil>)"
    by (simp add: sample_series_length)
  have pos: "(0::nat) < 8" by simp
  note t = downsample_stride[OF pos step]
  from t have "length (downsample 8 sample_series) =
      nat \<lceil>real (length sample_series) / real 3\<rceil>"
    by blast
  then have len: "length (downsample 8 sample_series) = 6"
    by (simp add: sample_series_length)
  from t have sub: "subseq (downsample 8 sample_series) sample_series"
    by blast
  from t have "downsample 8 sample_series =
      map (\<lambda>i. sample_series ! i) (filter (\<lambda>i. i mod 3 = 0) [0..<length sample_series])"
    by blast
  then have vals: "map snd (downsample 8 sample_series) =
        [Fin 50000, Fin 50003, Fin 50006, Fin 50009, Fin 50012, Fin 50015]"
    by (simp add: sample_series_length multiples_of_3) (simp add: sample_series_def)
  from pos step len vals sub show ?thesis by simp
qed

section \<open>The price fetch: what a cycle publishes\<close>

lemma flash_None: "flash None n st = st"
  by (simp add: flash_def)

lemma flash_frame:
  "flash held n st = st\<lparr>priceColor := priceColor (flash held n st),
                          timers := timers (flash held n st)\<rparr>"
  by (simp add: flash_def Let_def split: option.splits)

lemma flash_same: "priceColor (flash (Some p) p st) = priceColor st"
  by (cases p) (simp_all add: flash_def Let_def strict_eq_def num_gt_def)

lemma flash_colour_changes:
  "priceColor (flash held n st) \<noteq> priceColor st \<Longrightarrow>
   \<exists>p. held = Some p \<and> \<not> strict_eq n p \<and> (num_gt n p \<or> num_lt n p)"
  by (auto simp add: flash_def Let_def split: option.splits if_splits)

lemma publish_Inl:
  "publish now held init (Inl e) st =
     st\<lparr>loading := (if init then False else loading st), error := Some (message_of e)\<rparr>"
  by (simp add: publish_def Let_def)

lemma publish_Inr:
  "publish now held init (Inr (n, p)) st =
     (flash held n st)\<lparr>loading := (if init then False else loading st),
        error := None, previousPrice := held, price := Some n,
        performanceData := Some p, lastUpdated := Some now\<rparr>"
  by (simp add: publish_def Let_def flash_def split: option.splits)

lemma publish_colour:
  "priceColor (publish now held init a st) =
     (case a of Inl e \<Rightarrow> priceColor st | Inr (n, p) \<Rightarrow> priceColor (flash held n st))"
  by (cases a) (auto simp: publish_Inl publish_Inr)

lemma publish_timers:
  "timers (publish now held init a st) =
     (case a of Inl e \<Rightarrow> timers st | Inr (n, p) \<Rightarrow> timers (flash held n st))"
  by (cases a) (auto simp: publish_Inl publish_Inr)

lemma publish_failed:
  assumes "error (publish now held init a st) \<noteq> None"
  shows "publish now held init a st =
     st\<lparr>loading := (if init then False else loading st),
        error := error (publish now held init a st)\<rparr>"
proof (cases a)
  case (Inl e)
  then show ?thesis by (simp add: publish_Inl)
next
  case (Inr np)
  with assms show ?thesis by (cases np) (simp add: publish_Inr)
qed

lemma publish_succeeded:
  assumes "error (publish now held init a st) = None"
    and "performanceData (publish now held init a st) = Some p"
  shows "\<exists>n. a = Inr (n, p) \<and> price (publish now held init a st) = Some n"
proof (cases a)
  case (Inl e)
  with assms show ?thesis by (simp add: publish_Inl)
next
  case (Inr np)
  with assms show ?thesis by (cases np) (simp add: publish_Inr)
qed

lemma publish_no_held:
  "priceColor (publish now None init a st) = priceColor st
   \<and> timers (publish now None init a st) = timers st"
  by (cases a) (auto simp: publish_Inl publish_Inr flash_None)

lemma publish_colour_changes:
  assumes "priceColor (publish now held init a st) \<noteq> priceColor st"
  shows "\<exists>p n. held = Some p \<and> price (publish now held init a st) = Some n
           \<and> \<not> strict_eq n p \<and> (num_gt n p \<or> num_lt n p)"
proof (cases a)
  case (Inl e)
  with assms show ?thesis by (simp add: publish_Inl)
next
  case (Inr np)
  obtain n q where np: "np = (n, q)" by (cases np)
  from assms Inr np have "priceColor (flash held n st) \<noteq> priceColor st"
    by (simp add: publish_Inr)
  from flash_colour_changes[OF this] Inr np show ?thesis
    by (auto simp: publish_Inr)
qed

lemma publish_same_price:
  assumes "price (publish now (Some p) init a st) = Some p"
  shows "priceColor (publish now (Some p) init a st) = priceColor st"
proof (cases a)
  case (Inl e)
  then show ?thesis by (simp add: publish_Inl)
next
  case (Inr np)
  obtain n q where np: "np = (n, q)" by (cases np)
  with assms Inr have "n = p" by (simp add: publish_Inr)
  with Inr np show ?thesis by (simp add: publish_Inr flash_same)
qed

lemma detailed_attempt_Inr:
  assumes "detailed_attempt eng net = Inr (n, p)"
  shows "\<exists>d md. coin_detail net = Inr d \<and> market_data d = Some md
     \<and> currentPrice p = n
     \<and> priceChange p = or_zero (price_change_24h md)
     \<and> BitcoinPerformanceData.previousPrice p =
         num_sub (roundNearest eng) n (or_zero (price_change_24h md))
     \<and> priceChangePercent p = or_zero (price_change_percentage_24h md)"
  using assms
  by (auto simp: detailed_attempt_def Let_def split: sum.splits option.splits prod.splits)

lemma derived_attempt_Inr:
  assumes "derived_attempt eng net = Inr (n, p)"
  shows "currentPrice p = n
     \<and> priceChange p = num_sub (roundNearest eng) n (BitcoinPerformanceData.previousPrice p)
     \<and> priceChangePercent p =
         num_mul (roundNearest eng)
           (num_div (roundNearest eng) (priceChange p) (BitcoinPerformanceData.previousPrice p))
           (Fin 100)"
  using assms
  by (auto simp: derived_attempt_def Let_def split: sum.splits option.splits if_splits)

lemma num_sub_rounds:
  "c \<noteq> d \<Longrightarrow> num_sub rnd (Fin c) (Fin d) = rnd (c - d)"
  by (simp add: num_sub_def)

lemma percent_zero_denominator:
  assumes "is_zero d"
  shows "num_mul rnd (num_div rnd a d) (Fin 100) = PosInf
   \<or> num_mul rnd (num_div rnd a d) (Fin 100) = NegInf
   \<or> num_mul rnd (num_div rnd a d) (Fin 100) = NaN"
proof -
  from assms have "num_div rnd a d = PosInf \<or> num_div rnd a d = NegInf \<or> num_div rnd a d = NaN"
    by (auto simp: num_div_def is_zero_def infinity_of_def)
  then show ?thesis
    by (auto simp: num_mul_def infinity_of_def)
qed

text \<open>
  C1, as the code has it. In a snapshot that a successful cycle publishes:
  \<^item> in the self-derived strategy \<open>priceChange\<close> is the double
    \<open>currentPrice - previousPrice\<close> and \<open>priceChangePercent\<close> the double
    \<open>priceChange / previousPrice * 100\<close>, each computed by that very expression;
  \<^item> in the detailed strategy \<open>priceChange\<close> and \<open>priceChangePercent\<close> are the
    provider's \<open>price_change_24h\<close> and \<open>price_change_percentage_24h\<close>, or 0 when the
    field is absent or falsy, and \<open>previousPrice\<close> is the double
    \<open>currentPrice - priceChange\<close>: for two different finite numbers, the exact
    difference rounded once. So \<open>priceChange\<close> is \<open>currentPrice - previousPrice\<close> up to
    the rounding of that one subtraction, and \<open>priceChangePercent\<close> is whatever the
    provider sent.

  The rounding is the engine's, with nothing assumed of it.
\<close>

theorem snapshot_change_relations:
  "(error (fetchBitcoinData eng net now held init st) = None \<longrightarrow>
    performanceData (fetchBitcoinData eng net now held init st) = Some p \<longrightarrow>
      BitcoinPerformanceData.previousPrice p =
        num_sub (roundNearest eng) (currentPrice p) (priceChange p)
      \<and> (\<forall>c d. currentPrice p = Fin c \<longrightarrow> priceChange p = Fin d \<longrightarrow> c \<noteq> d \<longrightarrow>
            BitcoinPerformanceData.previousPrice p = roundNearest eng (c - d))
      \<and> (\<forall>d md. coin_detail net = Inr d \<longrightarrow> market_data d = Some md \<longrightarrow>
            priceChange p = or_zero (price_change_24h md)
            \<and> priceChangePercent p = or_zero (price_change_percentage_24h md)))
   \<and> (error (fetchBitcoinData_derived eng net now held init st) = None \<longrightarrow>
      performanceData (fetchBitcoinData_derived eng net now held init st) = Some q \<longrightarrow>
        priceChange q =
          num_sub (roundNearest eng) (currentPrice q) (BitcoinPerformanceData.previousPrice q)
        \<and> priceChangePercent q =
            num_mul (roundNearest eng)
              (num_div (roundNearest eng) (priceChange q)
                 (BitcoinPerformanceData.previousPrice q))
              (Fin 100))"
proof (intro conjI impI)
  assume ok: "error (fetchBitcoinData eng net now held init st) = None"
    and pub: "performanceData (fetchBitcoinData eng net now held init st) = Some p"
  from publish_succeeded[OF ok[unfolded fetchBitcoinData_def] pub[unfolded fetchBitcoinData_def]]
  obtain n where a: "detailed_attempt eng net = Inr (n, p)" by blast
  from detailed_attempt_Inr[OF a] obtain d md where
    d: "coin_detail net = Inr d" "market_data d = Some md" "currentPrice p = n"
       "priceChange p = or_zero (price_change_24h md)"
       "BitcoinPerformanceData.previousPrice p =
          num_sub (roundNearest eng) n (or_zero (price_change_24h md))"
       "priceChangePercent p = or_zero (price_change_percentage_24h md)"
    by blast
  from d show stored: "BitcoinPerformanceData.previousPrice p =
      num_sub (roundNearest eng) (currentPrice p) (priceChange p)"
    by simp
  show "\<forall>c d. currentPrice p = Fin c \<longrightarrow> priceChange p = Fin d \<longrightarrow> c \<noteq> d \<longrightarrow>
      BitcoinPerformanceData.previousPrice p = roundNearest eng (c - d)"
    using stored by (simp add: num_sub_rounds)
  show "\<forall>d md. coin_detail net = Inr d \<longrightarrow> market_data d = Some md \<longrightarrow>
      priceChange p = or_zero (price_change_24h md)
      \<and> priceChangePercent p = or_zero (price_change_percentage_24h md)"
    using d by simp
next
  assume ok: "error (fetchBitcoinData_derived eng net now held init st) = None"
    and pub: "performanceData (fetchBitcoinData_derived eng net now held init st) = Some q"
  from publish_succeeded[OF ok[unfolded fetchBitcoinData_derived_def]
      pub[unfolded fetchBitcoinData_derived_def]]
  obtain n where a: "derived_attempt eng net = Inr (n, q)" by blast
  from derived_attempt_Inr[OF a]
  show "priceChange q =
          num_sub (roundNearest eng) (currentPrice q) (BitcoinPerformanceData.previousPrice q)"
    and "priceChangePercent q =
            num_mul (roundNearest eng)
              (num_div (roundNearest eng) (priceChange q)
                 (BitcoinPerformanceData.previousPrice q))
              (Fin 100)"
    by simp_all
qed

lemmas sample_defs =
  sample_engine_def offline_def series_of_def year_series_def detail_of_def
  initial_home_state_def held_state_def

lemmas number_defs = num_sub_def num_div_def num_mul_def sample_round_def

lemma eval_no_percentage:
  "fetchBitcoinData sample_engine net_no_percentage 0 None True initial_home_state =
     \<lparr>price = Some (Fin 50000), previousPrice = None, loading = False, lastUpdated = Some 0,
      priceColor = None,
      performanceData = Some
        \<lparr>currentPrice = Fin 50000, BitcoinPerformanceData.previousPrice = Fin 40000,
         priceChange = Fin 10000, priceChangePercent = Fin 0, high24h = Fin 52000,
         low24h = Fin 49000, volume24h = Fin 30000000000, marketCap = Fin 1000000000000,
         yearlyChange = Fin 18000, yearlyChangePercent = Fin (225 / 4),
         priceOneYearAgo = Fin 32000\<rparr>,
      error = None, timers = []\<rparr>"
  by (simp add: fetchBitcoinData_def publish_def flash_def detailed_attempt_def
      yearly_part_def net_no_percentage_def sample_defs Let_def or_zero_def truthy_def
      number_defs)

lemma eval_derived_year:
  "fetchBitcoinData_derived sample_engine net_year 0 None True initial_home_state =
     \<lparr>price = Some (Fin 50000), previousPrice = None, loading = False, lastUpdated = Some 0,
      priceColor = None,
      performanceData = Some
        \<lparr>currentPrice = Fin 50000, BitcoinPerformanceData.previousPrice = Fin 40000,
         priceChange = Fin 10000, priceChangePercent = Fin 25, high24h = Fin 50000,
         low24h = Fin 32000, volume24h = Fin 30000000000, marketCap = Fin 1000000000000,
         yearlyChange = Fin 18000, yearlyChangePercent = Fin (225 / 4),
         priceOneYearAgo = Fin 32000\<rparr>,
      error = None, timers = []\<rparr>"
  by (simp add: fetchBitcoinData_derived_def publish_def flash_def derived_attempt_def
      spread_def net_year_def sample_defs Let_def Math_max_def Math_min_def max2_def min2_def
      number_defs)

text \<open>
  The detailed strategy on a price of 50000 with a reported change of 10000 and no
  percentage, and the self-derived one on a series that ends at 40000, then 50000.
\<close>

theorem snapshot_change_relations_witness:
  "error (fetchBitcoinData sample_engine net_no_percentage 0 None True initial_home_state) = None
   \<and> BitcoinPerformanceData.previousPrice (the (performanceData
         (fetchBitcoinData sample_engine net_no_percentage 0 None True initial_home_state)))
       = Fin 40000
   \<and> priceChange (the (performanceData
         (fetchBitcoinData sample_engine net_no_percentage 0 None True initial_home_state)))
       = Fin 10000
   \<and> priceChangePercent (the (performanceData
         (fetchBitcoinData sample_engine net_no_percentage 0 None True initial_home_state)))
       = Fin 0
   \<and> error (fetchBitcoinData_derived sample_engine net_year 0 None True initial_home_state) = None
   \<and> priceChange (the (performanceData
         (fetchBitcoinData_derived sample_engine net_year 0 None True initial_home_state)))
       = Fin 10000
   \<and> priceChangePercent (the (performanceData
         (fetchBitcoinData_derived sample_engine net_year 0 None True initial_home_state)))
       = Fin 25"
proof -
  let ?S = "fetchBitcoinData sample_engine net_no_percentage 0 None True initial_home_state"
  let ?T = "fetchBitcoinData_derived sample_engine net_year 0 None True initial_home_state"
  let ?D = "detail_of (Fin 50000) (Some (Fin 10000)) None"
  have s: "error ?S = None" "performanceData ?S = Some (the (performanceData ?S))"
    by (simp_all add: eval_no_percentage)
  have t: "error ?T = None" "performanceData ?T = Some (the (performanceData ?T))"
    by (simp_all add: eval_derived_year)
  have net: "coin_detail net_no_percentage = Inr ?D"
    "market_data ?D = Some (the (market_data ?D))"
    by (simp_all add: net_no_percentage_def offline_def detail_of_def)
  have fields: "price_change_24h (the (market_data ?D)) = Some (Fin 10000)"
    "price_change_percentage_24h (the (market_data ?D)) = None"
    by (simp_all add: detail_of_def)
  have cur: "currentPrice (the (performanceData ?S)) = Fin 50000"
    by (simp add: eval_no_percentage)
  note inst = snapshot_change_relations[of sample_engine net_no_percentage 0 None True
      initial_home_state "the (performanceData ?S)" "the (performanceData ?T)"]
  from inst s net
  have b: "priceChange (the (performanceData ?S)) = or_zero (price_change_24h (the (market_data ?D)))"
    and c: "priceChangePercent (the (performanceData ?S)) =
      or_zero (price_change_percentage_24h (the (market_data ?D)))"
    by blast+
  from b have b': "priceChange (the (performanceData ?S)) = Fin 10000"
    unfolding fields by (simp add: or_zero_def truthy_def)
  from c have c': "priceChangePercent (the (performanceData ?S)) = Fin 0"
    unfolding fields by (simp add: or_zero_def)
  from inst s
  have "\<forall>c d. currentPrice (the (performanceData ?S)) = Fin c \<longrightarrow>
      priceChange (the (performanceData ?S)) = Fin d \<longrightarrow> c \<noteq> d \<longrightarrow>
      BitcoinPerformanceData.previousPrice (the (performanceData ?S)) =
        roundNearest sample_engine (c - d)"
    by blast
  from this[rule_format, OF cur b']
  have a': "BitcoinPerformanceData.previousPrice (the (performanceData ?S)) = Fin 40000"
    by (simp add: sample_engine_def sample_round_def)
  note inst2 = snapshot_change_relations[of sample_engine net_year 0 None True
      initial_home_state "the (performanceData ?S)" "the (performanceData ?T)"]
  have cur': "currentPrice (the (performanceData ?T)) = Fin 50000"
    "BitcoinPerformanceData.previousPrice (the (performanceData ?T)) = Fin 40000"
    by (simp_all add: eval_derived_year)
  from inst2 t
  have d: "priceChange (the (performanceData ?T)) =
             num_sub (roundNearest sample_engine) (currentPrice (the (performanceData ?T)))
               (BitcoinPerformanceData.previousPrice (the (performanceData ?T)))"
    and e: "priceChangePercent (the (performanceData ?T)) =
             num_mul (roundNearest sample_engine)
               (num_div (roundNearest sample_engine) (priceChange (the (performanceData ?T)))
                  (BitcoinPerformanceData.previousPrice (the (performanceData ?T)))) (Fin 100)"
    by blast+
  from d have d': "priceChange (the (performanceData ?T)) = Fin 10000"
    unfolding cur' by (simp add: sample_engine_def number_defs)
  from e have e': "priceChangePercent (the (performanceData ?T)) = Fin 25"
    unfolding cur' d' by (simp add: sample_engine_def number_defs)
  from s(1) a' b' c' t(1) d' e' show ?thesis by blast
qed

text \<open>
  C1 as stated fails in the detailed strategy: the provider reports a change of 10000
  on 50000 and no percentage; the snapshot then holds the percentage 0, while
  \<open>priceChange / previousPrice * 100\<close> is 25. Each step is exact in doubles:
  \<open>50000 - 10000\<close> is 40000, \<open>10000 / 40000\<close> is 0.25 and \<open>0.25 * 100\<close> is 25.
\<close>

theorem provider_percentage_counterexample:
  "error (fetchBitcoinData sample_engine net_no_percentage 0 None True initial_home_state) = None
   \<and> priceChangePercent (the (performanceData
         (fetchBitcoinData sample_engine net_no_percentage 0 None True initial_home_state)))
       = Fin 0
   \<and> num_mul (roundNearest sample_engine)
       (num_div (roundNearest sample_engine)
         (priceChange (the (performanceData
           (fetchBitcoinData sample_engine net_no_percentage 0 None True initial_home_state))))
         (BitcoinPerformanceData.previousPrice (the (performanceData
           (fetchBitcoinData sample_engine net_no_percentage 0 None True initial_home_state)))))
       (Fin 100)
       = Fin 25"
  by (simp add: eval_no_percentage) (simp add: sample_engine_def number_defs)

section \<open>The price fetch: failure and the flash\<close>

lemma flash_mstr_None: "flash_mstr None n st = st"
  by (simp add: flash_mstr_def)

lemma fetchMSTRData_Inl:
  assumes "mstr_attempt eng net = Inl e"
  shows "fetchMSTRData eng net now held init st =
     st\<lparr>strategy_state.loading := (if init then False else strategy_state.loading st),
        strategy_state.error := Some (message_of e)\<rparr>"
  using assms by (simp add: fetchMSTRData_def Let_def)

lemma fetchMSTRData_Inr:
  assumes "mstr_attempt eng net = Inr (n, m)"
  shows "fetchMSTRData eng net now held init st =
     (flash_mstr held n st)\<lparr>strategy_state.loading := (if init then False else strategy_state.loading st),
        strategy_state.error := None, strategy_state.previousPrice := Some n,
        mstrData := Some m, strategy_state.lastUpdated := Some now\<rparr>"
  using assms by (simp add: fetchMSTRData_def Let_def flash_mstr_def split: option.splits)

lemma fetchMSTRData_failed:
  assumes "strategy_state.error (fetchMSTRData eng net now held init st) \<noteq> None"
  shows "fetchMSTRData eng net now held init st =
     st\<lparr>strategy_state.loading := (if init then False else strategy_state.loading st),
        strategy_state.error := strategy_state.error (fetchMSTRData eng net now held init st)\<rparr>"
proof (cases "mstr_attempt eng net")
  case (Inl e)
  then show ?thesis by (simp add: fetchMSTRData_Inl)
next
  case (Inr nm)
  obtain n m where "nm = (n, m)" by (cases nm)
  with Inr assms show ?thesis by (simp add: fetchMSTRData_Inr)
qed

lemma fetchMSTRData_succeeded:
  assumes "strategy_state.error (fetchMSTRData eng net now held init st) = None"
    and "mstrData (fetchMSTRData eng net now held init st) = Some m"
  shows "\<exists>n. mstr_attempt eng net = Inr (n, m)"
proof (cases "mstr_attempt eng net")
  case (Inl e)
  with assms show ?thesis by (simp add: fetchMSTRData_Inl)
next
  case (Inr nm)
  obtain n m' where "nm = (n, m')" by (cases nm)
  with Inr assms show ?thesis by (simp add: fetchMSTRData_Inr)
qed

lemma publish_error_iff:
  "error (publish now held init a st) \<noteq> None \<longleftrightarrow> (\<exists>e. a = Inl e)"
proof (cases a)
  case (Inl e)
  then show ?thesis by (simp add: publish_Inl)
next
  case (Inr np)
  then show ?thesis by (cases np) (simp add: publish_Inr)
qed

lemma fetchMSTRData_error_iff:
  "strategy_state.error (fetchMSTRData eng net now held init st) \<noteq> None
     \<longleftrightarrow> (\<exists>e. mstr_attempt eng net = Inl e)"
proof (cases "mstr_attempt eng net")
  case (Inl e)
  then show ?thesis by (simp add: fetchMSTRData_Inl)
next
  case (Inr nm)
  obtain n m where "nm = (n, m)" by (cases nm)
  with Inr show ?thesis by (simp add: fetchMSTRData_Inr)
qed

lemma detailed_attempt_rejected:
  "coin_detail net = Inl e \<Longrightarrow> detailed_attempt eng net = Inl e"
  by (simp add: detailed_attempt_def)

lemma detailed_attempt_no_market_data:
  "coin_detail net = Inr d \<Longrightarrow> market_data d = None \<Longrightarrow>
   detailed_attempt eng net = Inl (ErrorInstance ''Market data not available'')"
  by (simp add: detailed_attempt_def)

lemma mstr_attempt_rejected:
  "alpha_vantage net = Inl e \<Longrightarrow> mstr_attempt eng net = Inl e"
  by (simp add: mstr_attempt_def)

text \<open>
  C9. A cycle ends with an error exactly when the body of its \<open>try\<close> raised (a
  rejected request, malformed JSON, a missing field, a soft error). Such a cycle leaves
  every cell but
  \<open>error\<close> as it was, \<open>loading\<close> apart, which the initial load clears: the price,
  the previous price, the snapshot (or the equity record) and \<open>lastUpdated\<close> keep
  their values, and so do the colour and the timers. A rejected request and an absent
  \<open>market_data\<close> are such cycles.
\<close>

theorem failed_fetch_keeps_state:
  "(error (fetchBitcoinData eng net now held init st) \<noteq> None \<longrightarrow>
      fetchBitcoinData eng net now held init st =
        st\<lparr>loading := (if init then False else loading st),
           error := error (fetchBitcoinData eng net now held init st)\<rparr>)
   \<and> (error (fetchBitcoinData eng net now held init st) \<noteq> None \<longleftrightarrow>
        (\<exists>e. detailed_attempt eng net = Inl e))
   \<and> (strategy_state.error (fetchMSTRData eng net now held' init st') \<noteq> None \<longleftrightarrow>
        (\<exists>e. mstr_attempt eng net = Inl e))
   \<and> (\<forall>e. coin_detail net = Inl e \<longrightarrow>
         error (fetchBitcoinData eng net now held init st) = Some (message_of e))
   \<and> (\<forall>d. coin_detail net = Inr d \<longrightarrow> market_data d = None \<longrightarrow>
         error (fetchBitcoinData eng net now held init st) = Some ''Market data not available'')
   \<and> (strategy_state.error (fetchMSTRData eng net now held' init st') \<noteq> None \<longrightarrow>
      fetchMSTRData eng net now held' init st' =
        st'\<lparr>strategy_state.loading := (if init then False else strategy_state.loading st'),
            strategy_state.error := strategy_state.error (fetchMSTRData eng net now held' init st')\<rparr>)
   \<and> (\<forall>e. alpha_vantage net = Inl e \<longrightarrow>
         strategy_state.error (fetchMSTRData eng net now held' init st') = Some (message_of e))"
proof (intro conjI impI allI)
  assume "error (fetchBitcoinData eng net now held init st) \<noteq> None"
  then show "fetchBitcoinData eng net now held init st =
        st\<lparr>loading := (if init then False else loading st),
           error := error (fetchBitcoinData eng net now held init st)\<rparr>"
    unfolding fetchBitcoinData_def by (rule publish_failed)
next
  show "error (fetchBitcoinData eng net now held init st) \<noteq> None \<longleftrightarrow>
        (\<exists>e. detailed_attempt eng net = Inl e)"
    unfolding fetchBitcoinData_def by (rule publish_error_iff)
next
  show "strategy_state.error (fetchMSTRData eng net now held' init st') \<noteq> None \<longleftrightarrow>
        (\<exists>e. mstr_attempt eng net = Inl e)"
    by (rule fetchMSTRData_error_iff)
next
  fix e assume "coin_detail net = Inl e"
  then show "error (fetchBitcoinData eng net now held init st) = Some (message_of e)"
    by (simp add: fetchBitcoinData_def detailed_attempt_rejected publish_Inl)
next
  fix d assume "coin_detail net = Inr d" "market_data d = None"
  then show "error (fetchBitcoinData eng net now held init st) = Some ''Market data not available''"
    by (simp add: fetchBitcoinData_def detailed_attempt_no_market_data publish_Inl)
next
  assume "strategy_state.error (fetchMSTRData eng net now held' init st') \<noteq> None"
  then show "fetchMSTRData eng net now held' init st' =
        st'\<lparr>strategy_state.loading := (if init then False else strategy_state.loading st'),
            strategy_state.error := strategy_state.error (fetchMSTRData eng net now held' init st')\<rparr>"
    by (rule fetchMSTRData_failed)
next
  fix e assume "alpha_vantage net = Inl e"
  then show "strategy_state.error (fetchMSTRData eng net now held' init st') = Some (message_of e)"
    by (simp add: mstr_attempt_rejected fetchMSTRData_Inl)
qed

lemma eval_no_market_data:
  "fetchBitcoinData sample_engine net_no_market_data 120000 (Some (Fin 50000)) False held_state =
     held_state\<lparr>error := Some ''Market data not available''\<rparr>"
  by (simp add: fetchBitcoinData_def publish_def detailed_attempt_def net_no_market_data_def
      offline_def Let_def)

lemma eval_offline_mstr:
  "fetchMSTRData sample_engine offline 300000 (Some (Fin 400)) False held_strategy_state =
     held_strategy_state\<lparr>strategy_state.error := Some ''Network request failed''\<rparr>"
  by (simp add: fetchMSTRData_def mstr_attempt_def offline_def Let_def)

text \<open>
  A refresh that finds no \<open>market_data\<close>, and an equity refresh with the network
  down, each on a state that holds earlier data.
\<close>

theorem failed_fetch_keeps_state_witness:
  "error (fetchBitcoinData sample_engine net_no_market_data 120000 (Some (Fin 50000)) False held_state)
     = Some ''Market data not available''
   \<and> fetchBitcoinData sample_engine net_no_market_data 120000 (Some (Fin 50000)) False held_state
     = held_state\<lparr>error := Some ''Market data not available''\<rparr>
   \<and> price (fetchBitcoinData sample_engine net_no_market_data 120000 (Some (Fin 50000)) False held_state)
     = Some (Fin 50000)
   \<and> lastUpdated (fetchBitcoinData sample_engine net_no_market_data 120000 (Some (Fin 50000)) False held_state)
     = Some 1000
   \<and> strategy_state.error (fetchMSTRData sample_engine offline 300000 (Some (Fin 400)) False held_strategy_state)
     = Some ''Network request failed''
   \<and> fetchMSTRData sample_engine offline 300000 (Some (Fin 400)) False held_strategy_state
     = held_strategy_state\<lparr>strategy_state.error := Some ''Network request failed''\<rparr>"
proof -
  let ?F = "fetchBitcoinData sample_engine net_no_market_data 120000 (Some (Fin 50000)) False held_state"
  let ?G = "fetchMSTRData sample_engine offline 300000 (Some (Fin 400)) False held_strategy_state"
  note t = failed_fetch_keeps_state[of sample_engine net_no_market_data 120000 "Some (Fin 50000)"
      False held_state None held_strategy_state]
  note u = failed_fetch_keeps_state[of sample_engine offline 300000 None False held_state
      "Some (Fin 400)" held_strategy_state]
  have cd: "coin_detail net_no_market_data = Inr \<lparr>market_data = None\<rparr>"
    by (simp add: net_no_market_data_def offline_def)
  from t cd have e: "error ?F = Some ''Market data not available''" by simp
  from t e have f0: "?F = held_state\<lparr>loading := (if False then False else loading held_state),
      error := error ?F\<rparr>"
    by (metis option.distinct(1))
  have f1: "held_state\<lparr>loading := (if False then False else loading held_state),
      error := x\<rparr> = held_state\<lparr>error := x\<rparr>" for x
    by simp
  from f0 f1 e have f: "?F = held_state\<lparr>error := Some ''Market data not available''\<rparr>"
    by metis
  have av: "alpha_vantage offline = Inl (ErrorInstance ''Network request failed'')"
    by (simp add: offline_def)
  from u av have g: "strategy_state.error ?G = Some ''Network request failed''" by simp
  from u g have h0: "?G = held_strategy_state\<lparr>strategy_state.loading :=
        (if False then False else strategy_state.loading held_strategy_state),
      strategy_state.error := strategy_state.error ?G\<rparr>"
    by (metis option.distinct(1))
  have h1: "held_strategy_state\<lparr>strategy_state.loading :=
        (if False then False else strategy_state.loading held_strategy_state),
      strategy_state.error := x\<rparr>
      = held_strategy_state\<lparr>strategy_state.error := x\<rparr>" for x
    by simp
  from h0 h1 g have h: "?G = held_strategy_state\<lparr>strategy_state.error := Some ''Network request failed''\<rparr>"
    by metis
  have p: "price ?F = Some (Fin 50000)" "lastUpdated ?F = Some 1000"
    unfolding f by (simp_all add: held_state_def)
  from e f g h p show ?thesis by blast
qed

text \<open>
  C10. With no held price (\<open>null\<close>, as on the first fetch) a cycle sets no colour and
  schedules no timer, whatever arrives. A cycle changes the colour only if a price is
  held and the new price is above or below it; a new price equal to the held one leaves
  the colour as it was. Both strategies.
\<close>

theorem no_flash_without_held_price:
  "(held = None \<longrightarrow>
      priceColor (fetchBitcoinData eng net now held init st) = priceColor st
      \<and> timers (fetchBitcoinData eng net now held init st) = timers st
      \<and> priceColor (fetchBitcoinData_derived eng net now held init st) = priceColor st
      \<and> timers (fetchBitcoinData_derived eng net now held init st) = timers st)
   \<and> (priceColor (fetchBitcoinData eng net now held init st) \<noteq> priceColor st \<longrightarrow>
        (\<exists>p n. held = Some p \<and> price (fetchBitcoinData eng net now held init st) = Some n
           \<and> \<not> strict_eq n p \<and> (num_gt n p \<or> num_lt n p)))
   \<and> (priceColor (fetchBitcoinData_derived eng net now held init st) \<noteq> priceColor st \<longrightarrow>
        (\<exists>p n. held = Some p \<and> price (fetchBitcoinData_derived eng net now held init st) = Some n
           \<and> \<not> strict_eq n p \<and> (num_gt n p \<or> num_lt n p)))
   \<and> (price (fetchBitcoinData eng net now held init st) = held \<longrightarrow>
        priceColor (fetchBitcoinData eng net now held init st) = priceColor st)
   \<and> (price (fetchBitcoinData_derived eng net now held init st) = held \<longrightarrow>
        priceColor (fetchBitcoinData_derived eng net now held init st) = priceColor st)"
proof (intro conjI impI)
  assume "held = None"
  then show "priceColor (fetchBitcoinData eng net now held init st) = priceColor st"
    "timers (fetchBitcoinData eng net now held init st) = timers st"
    "priceColor (fetchBitcoinData_derived eng net now held init st) = priceColor st"
    "timers (fetchBitcoinData_derived eng net now held init st) = timers st"
    by (simp_all add: fetchBitcoinData_def fetchBitcoinData_derived_def publish_no_held)
next
  assume "priceColor (fetchBitcoinData eng net now held init st) \<noteq> priceColor st"
  then show "\<exists>p n. held = Some p \<and> price (fetchBitcoinData eng net now held init st) = Some n
           \<and> \<not> strict_eq n p \<and> (num_gt n p \<or> num_lt n p)"
    unfolding fetchBitcoinData_def by (rule publish_colour_changes)
next
  assume "priceColor (fetchBitcoinData_derived eng net now held init st) \<noteq> priceColor st"
  then show "\<exists>p n. held = Some p \<and> price (fetchBitcoinData_derived eng net now held init st) = Some n
           \<and> \<not> strict_eq n p \<and> (num_gt n p \<or> num_lt n p)"
    unfolding fetchBitcoinData_derived_def by (rule publish_colour_changes)
next
  assume a: "price (fetchBitcoinData eng net now held init st) = held"
  show "priceColor (fetchBitcoinData eng net now held init st) = priceColor st"
  proof (cases held)
    case None
    then show ?thesis by (simp add: fetchBitcoinData_def publish_no_held)
  next
    case (Some p)
    with a show ?thesis unfolding fetchBitcoinData_def by (simp add: publish_same_price)
  qed
next
  assume a: "price (fetchBitcoinData_derived eng net now held init st) = held"
  show "priceColor (fetchBitcoinData_derived eng net now held init st) = priceColor st"
  proof (cases held)
    case None
    then show ?thesis by (simp add: fetchBitcoinData_derived_def publish_no_held)
  next
    case (Some p)
    with a show ?thesis unfolding fetchBitcoinData_derived_def by (simp add: publish_same_price)
  qed
qed

lemma eval_first_51000:
  "fetchBitcoinData sample_engine net_51000 0 None True initial_home_state =
     initial_home_state\<lparr>loading := False, price := Some (Fin 51000), lastUpdated := Some 0,
       performanceData := performanceData
         (fetchBitcoinData sample_engine net_51000 0 None True initial_home_state)\<rparr>"
  by (simp add: fetchBitcoinData_def publish_def flash_def detailed_attempt_def
      yearly_part_def net_51000_def sample_defs Let_def or_zero_def truthy_def)

lemma eval_rise_51000:
  "fetchBitcoinData sample_engine net_51000 120000 (Some (Fin 50000)) False held_state =
     held_state\<lparr>priceColor := Some ''#22C55E'', timers := [(2000, ClearPriceColor)],
       previousPrice := Some (Fin 50000), price := Some (Fin 51000), lastUpdated := Some 120000,
       performanceData := performanceData
         (fetchBitcoinData sample_engine net_51000 120000 (Some (Fin 50000)) False held_state)\<rparr>"
  by (simp add: fetchBitcoinData_def publish_def flash_def detailed_attempt_def
      yearly_part_def net_51000_def sample_defs Let_def or_zero_def truthy_def
      strict_eq_def num_gt_def)

lemma eval_same_51000:
  "price (fetchBitcoinData sample_engine net_51000 120000 (Some (Fin 51000)) False held_state)
     = Some (Fin 51000)"
  by (simp add: fetchBitcoinData_def publish_def flash_def detailed_attempt_def
      yearly_part_def net_51000_def sample_defs Let_def or_zero_def truthy_def
      strict_eq_def num_gt_def)

text \<open>
  A first fetch of 51000; a rise from a held 50000, which is what does set the colour;
  and a 51000 that was already held.
\<close>

theorem no_flash_without_held_price_witness:
  "priceColor (fetchBitcoinData sample_engine net_51000 0 None True initial_home_state)
     = priceColor initial_home_state
   \<and> timers (fetchBitcoinData sample_engine net_51000 0 None True initial_home_state)
     = timers initial_home_state
   \<and> price (fetchBitcoinData sample_engine net_51000 0 None True initial_home_state)
     = Some (Fin 51000)
   \<and> priceColor (fetchBitcoinData sample_engine net_51000 120000 (Some (Fin 50000)) False held_state)
     = Some ''#22C55E''
   \<and> priceColor held_state = None
   \<and> price (fetchBitcoinData sample_engine net_51000 120000 (Some (Fin 51000)) False held_state)
     = Some (Fin 51000)
   \<and> priceColor (fetchBitcoinData sample_engine net_51000 120000 (Some (Fin 51000)) False held_state)
     = priceColor held_state"
proof -
  from no_flash_without_held_price[of None sample_engine net_51000 0 True initial_home_state]
  have a: "priceColor (fetchBitcoinData sample_engine net_51000 0 None True initial_home_state)
             = priceColor initial_home_state"
    "timers (fetchBitcoinData sample_engine net_51000 0 None True initial_home_state)
             = timers initial_home_state"
    by blast+
  have b: "price (fetchBitcoinData sample_engine net_51000 0 None True initial_home_state)
     = Some (Fin 51000)"
    by (subst eval_first_51000) simp
  have c: "priceColor (fetchBitcoinData sample_engine net_51000 120000 (Some (Fin 50000)) False held_state)
     = Some ''#22C55E''"
    by (subst eval_rise_51000) simp
  have d: "priceColor held_state = None" by (simp add: held_state_def)
  from no_flash_without_held_price[of "Some (Fin 51000)" sample_engine net_51000 120000 False
      held_state] eval_same_51000
  have e: "priceColor (fetchBitcoinData sample_engine net_51000 120000 (Some (Fin 51000)) False held_state)
     = priceColor held_state"
    by blast
  from a b c d e eval_same_51000 show ?thesis by blast
qed


section \<open>The denominator of the percentage\<close>

lemma mstr_attempt_Inr:
  assumes "mstr_attempt eng net = Inr (n, m)"
  shows "\<exists>a ts ld. alpha_vantage net = Inr a \<and> Time_Series_Daily a = Some ts
     \<and> latestData_of ts = Some ld
     \<and> MSTRData.price m = parseFloat eng (close_4 ld)
     \<and> MSTRData.priceChange m =
         num_sub (roundNearest eng) (parseFloat eng (close_4 ld))
           (previousClose_of eng ld (previousData_of ts))
     \<and> MSTRData.priceChangePercent m =
         num_mul (roundNearest eng)
           (num_div (roundNearest eng) (MSTRData.priceChange m)
              (previousClose_of eng ld (previousData_of ts)))
           (Fin 100)"
  using assms
  by (auto simp: mstr_attempt_def Let_def split: sum.splits option.splits if_splits)

text \<open>
  C7, as the code has it. Neither strategy tests the denominator. In the
  self-derived strategy the published change is the double
  \<open>currentPrice - previousPrice\<close> and the percentage the double
  \<open>priceChange / previousPrice * 100\<close>, whatever \<open>previousPrice\<close> is; in the equity
  strategy the change is \<open>price - previousClose\<close> and the percentage
  \<open>priceChange / previousClose * 100\<close>, whatever \<open>previousClose\<close> is, and with no day
  before the latest one \<open>previousClose\<close> is the latest day's open. With a denominator
  that is a zero, of either sign, the division is carried out and the percentage is
  \<open>Infinity\<close>, \<open>-Infinity\<close> or \<open>NaN\<close>.
\<close>

theorem percent_denominator_unguarded:
  "(error (fetchBitcoinData_derived eng net now held init st) = None \<longrightarrow>
    performanceData (fetchBitcoinData_derived eng net now held init st) = Some p \<longrightarrow>
      priceChange p =
        num_sub (roundNearest eng) (currentPrice p) (BitcoinPerformanceData.previousPrice p)
      \<and> priceChangePercent p =
          num_mul (roundNearest eng)
            (num_div (roundNearest eng) (priceChange p) (BitcoinPerformanceData.previousPrice p))
            (Fin 100)
      \<and> (is_zero (BitcoinPerformanceData.previousPrice p) \<longrightarrow>
           priceChangePercent p = PosInf \<or> priceChangePercent p = NegInf
           \<or> priceChangePercent p = NaN))
   \<and> (\<forall>a ts ld. alpha_vantage net = Inr a \<longrightarrow> Time_Series_Daily a = Some ts \<longrightarrow>
        latestData_of ts = Some ld \<longrightarrow>
        strategy_state.error (fetchMSTRData eng net now held' init st') = None \<longrightarrow>
        mstrData (fetchMSTRData eng net now held' init st') = Some m \<longrightarrow>
          MSTRData.priceChange m =
            num_sub (roundNearest eng) (MSTRData.price m)
              (previousClose_of eng ld (previousData_of ts))
          \<and> MSTRData.priceChangePercent m =
              num_mul (roundNearest eng)
                (num_div (roundNearest eng) (MSTRData.priceChange m)
                   (previousClose_of eng ld (previousData_of ts)))
                (Fin 100)
          \<and> (is_zero (previousClose_of eng ld (previousData_of ts)) \<longrightarrow>
               MSTRData.priceChangePercent m = PosInf \<or> MSTRData.priceChangePercent m = NegInf
               \<or> MSTRData.priceChangePercent m = NaN)
          \<and> (previousData_of ts = None \<longrightarrow>
               previousClose_of eng ld (previousData_of ts) = parseFloat eng (open_1 ld)))"
proof (intro conjI impI allI)
  assume ok: "error (fetchBitcoinData_derived eng net now held init st) = None"
    and pub: "performanceData (fetchBitcoinData_derived eng net now held init st) = Some p"
  from publish_succeeded[OF ok[unfolded fetchBitcoinData_derived_def]
      pub[unfolded fetchBitcoinData_derived_def]]
  obtain n where a: "derived_attempt eng net = Inr (n, p)" by blast
  note r = derived_attempt_Inr[OF a]
  from r show "priceChange p =
        num_sub (roundNearest eng) (currentPrice p) (BitcoinPerformanceData.previousPrice p)"
    by simp
  from r show pc: "priceChangePercent p =
        num_mul (roundNearest eng)
          (num_div (roundNearest eng) (priceChange p) (BitcoinPerformanceData.previousPrice p))
          (Fin 100)"
    by simp
  {
    assume "is_zero (BitcoinPerformanceData.previousPrice p)"
    from percent_zero_denominator[OF this, of "roundNearest eng" "priceChange p"] pc
    show "priceChangePercent p = PosInf \<or> priceChangePercent p = NegInf
           \<or> priceChangePercent p = NaN"
      by simp
  }
next
  fix a ts ld
  assume av: "alpha_vantage net = Inr a" and ts: "Time_Series_Daily a = Some ts"
    and ld: "latestData_of ts = Some ld"
    and ok: "strategy_state.error (fetchMSTRData eng net now held' init st') = None"
    and pub: "mstrData (fetchMSTRData eng net now held' init st') = Some m"
  from fetchMSTRData_succeeded[OF ok pub] obtain n where "mstr_attempt eng net = Inr (n, m)"
    by blast
  note r = mstr_attempt_Inr[OF this]
  from r av ts ld
  show "MSTRData.priceChange m =
      num_sub (roundNearest eng) (MSTRData.price m)
        (previousClose_of eng ld (previousData_of ts))"
    by auto
  from r av ts ld
  show pc: "MSTRData.priceChangePercent m =
      num_mul (roundNearest eng)
        (num_div (roundNearest eng) (MSTRData.priceChange m)
           (previousClose_of eng ld (previousData_of ts)))
        (Fin 100)"
    by auto
  {
    assume "is_zero (previousClose_of eng ld (previousData_of ts))"
    from percent_zero_denominator[OF this, of "roundNearest eng" "MSTRData.priceChange m"] pc
    show "MSTRData.priceChangePercent m = PosInf \<or> MSTRData.priceChangePercent m = NegInf
               \<or> MSTRData.priceChangePercent m = NaN"
      by simp
  }
  {
    assume "previousData_of ts = None"
    then show "previousClose_of eng ld (previousData_of ts) = parseFloat eng (open_1 ld)"
      by (simp add: previousClose_of_def)
  }
qed

lemma eval_derived_zero:
  "fetchBitcoinData_derived sample_engine net_zero_previous 0 None True initial_home_state =
     \<lparr>price = Some (Fin 5), previousPrice = None, loading = False, lastUpdated = Some 0,
      priceColor = None,
      performanceData = Some
        \<lparr>currentPrice = Fin 5, BitcoinPerformanceData.previousPrice = Fin 0,
         priceChange = Fin 5, priceChangePercent = PosInf, high24h = Fin 5,
         low24h = Fin 0, volume24h = Fin 30000000000, marketCap = Fin 1000000000000,
         yearlyChange = Fin 5, yearlyChangePercent = PosInf, priceOneYearAgo = Fin 0\<rparr>,
      error = None, timers = []\<rparr>"
  by (simp add: fetchBitcoinData_derived_def publish_def flash_def derived_attempt_def
      spread_def net_zero_previous_def sample_defs Let_def Math_max_def Math_min_def
      max2_def min2_def number_defs)

text \<open>
  C7 as stated fails: a series whose point before the last has the price 0 gives the
  published percentage \<open>Infinity\<close>.
\<close>

theorem zero_previous_price_counterexample:
  "error (fetchBitcoinData_derived sample_engine net_zero_previous 0 None True initial_home_state)
     = None
   \<and> BitcoinPerformanceData.previousPrice (the (performanceData
        (fetchBitcoinData_derived sample_engine net_zero_previous 0 None True initial_home_state)))
     = Fin 0
   \<and> priceChangePercent (the (performanceData
        (fetchBitcoinData_derived sample_engine net_zero_previous 0 None True initial_home_state)))
     = PosInf"
  by (simp add: eval_derived_zero)

lemmas equity_defs =
  sample_engine_def sample_parseFloat_def offline_def alpha_of_def day_of_def
  two_days_def one_day_def zero_close_days_def negative_zero_close_days_def earlier_day_def
  initial_strategy_state_def latestData_of_def previousData_of_def previousClose_of_def

lemma eval_mstr_zero_close:
  "fetchMSTRData sample_engine net_zero_close 0 None True initial_strategy_state =
     \<lparr>mstrData = Some
        \<lparr>symbol = ''MSTR'', price = Fin 410, open = Fin (797 / 2), high = Fin 410,
         low = Fin 390, volume = ''1200000'', lastRefreshed = ''2024-01-03'',
         MSTRData.priceChange = Fin 410, MSTRData.priceChangePercent = PosInf\<rparr>,
      strategy_state.previousPrice = Some (Fin 410), strategy_state.loading = False,
      strategy_state.lastUpdated = Some 0, strategy_state.priceColor = None,
      strategy_state.error = None, strategy_state.timers = []\<rparr>"
  by (simp add: fetchMSTRData_def mstr_attempt_def flash_mstr_def net_zero_close_def
      equity_defs Let_def number_defs)

lemma eval_mstr_negative_zero_close:
  "fetchMSTRData sample_engine net_negative_zero_close 0 None True initial_strategy_state =
     \<lparr>mstrData = Some
        \<lparr>symbol = ''MSTR'', price = Fin 410, open = Fin (797 / 2), high = Fin 410,
         low = Fin 390, volume = ''1200000'', lastRefreshed = ''2024-01-03'',
         MSTRData.priceChange = Fin 410, MSTRData.priceChangePercent = NegInf\<rparr>,
      strategy_state.previousPrice = Some (Fin 410), strategy_state.loading = False,
      strategy_state.lastUpdated = Some 0, strategy_state.priceColor = None,
      strategy_state.error = None, strategy_state.timers = []\<rparr>"
  by (simp add: fetchMSTRData_def mstr_attempt_def flash_mstr_def net_negative_zero_close_def
      equity_defs Let_def number_defs)

lemma eval_mstr_one_day:
  "fetchMSTRData sample_engine net_one_day 0 None True initial_strategy_state =
     \<lparr>mstrData = Some
        \<lparr>symbol = ''MSTR'', price = Fin 410, open = Fin 328, high = Fin 410,
         low = Fin 390, volume = ''1200000'', lastRefreshed = ''2024-01-03'',
         MSTRData.priceChange = Fin 82, MSTRData.priceChangePercent = Fin 25\<rparr>,
      strategy_state.previousPrice = Some (Fin 410), strategy_state.loading = False,
      strategy_state.lastUpdated = Some 0, strategy_state.priceColor = None,
      strategy_state.error = None, strategy_state.timers = []\<rparr>"
  by (simp add: fetchMSTRData_def mstr_attempt_def flash_mstr_def net_one_day_def
      equity_defs Let_def number_defs)

text \<open>
  A series whose previous price is zero and one whose previous price is 40000; an
  equity series whose previous close is zero, one whose previous close is the negative
  zero, and one of a single day, where the open of 328 is the denominator.
\<close>

theorem percent_denominator_unguarded_witness:
  "is_zero (BitcoinPerformanceData.previousPrice (the (performanceData
        (fetchBitcoinData_derived sample_engine net_zero_previous 0 None True initial_home_state))))
   \<and> priceChangePercent (the (performanceData
        (fetchBitcoinData_derived sample_engine net_zero_previous 0 None True initial_home_state)))
     = PosInf
   \<and> priceChange (the (performanceData
        (fetchBitcoinData_derived sample_engine net_year 0 None True initial_home_state)))
     = Fin 10000
   \<and> priceChangePercent (the (performanceData
        (fetchBitcoinData_derived sample_engine net_year 0 None True initial_home_state)))
     = Fin 25
   \<and> is_zero (previousClose_of sample_engine (day_of ''398.5000'' ''410.0000'')
        (previousData_of zero_close_days))
   \<and> MSTRData.priceChangePercent (the (mstrData
        (fetchMSTRData sample_engine net_zero_close 0 None True initial_strategy_state)))
     = PosInf
   \<and> is_zero (previousClose_of sample_engine (day_of ''398.5000'' ''410.0000'')
        (previousData_of negative_zero_close_days))
   \<and> MSTRData.priceChangePercent (the (mstrData
        (fetchMSTRData sample_engine net_negative_zero_close 0 None True initial_strategy_state)))
     = NegInf
   \<and> previousData_of one_day = None
   \<and> previousClose_of sample_engine (day_of ''328.0000'' ''410.0000'') (previousData_of one_day)
     = Fin 328
   \<and> MSTRData.priceChange (the (mstrData
        (fetchMSTRData sample_engine net_one_day 0 None True initial_strategy_state)))
     = Fin 82
   \<and> MSTRData.priceChangePercent (the (mstrData
        (fetchMSTRData sample_engine net_one_day 0 None True initial_strategy_state)))
     = Fin 25"
proof -
  let ?Z = "fetchBitcoinData_derived sample_engine net_zero_previous 0 None True initial_home_state"
  let ?Y = "fetchBitcoinData_derived sample_engine net_year 0 None True initial_home_state"
  let ?G = "fetchMSTRData sample_engine net_zero_close 0 None True initial_strategy_state"
  let ?N = "fetchMSTRData sample_engine net_negative_zero_close 0 None True initial_strategy_state"
  let ?O = "fetchMSTRData sample_engine net_one_day 0 None True initial_strategy_state"
  let ?L = "day_of ''398.5000'' ''410.0000''"
  let ?L1 = "day_of ''328.0000'' ''410.0000''"
  have z: "error ?Z = None" "performanceData ?Z = Some (the (performanceData ?Z))"
    by (simp_all add: eval_derived_zero)
  have z0: "is_zero (BitcoinPerformanceData.previousPrice (the (performanceData ?Z)))"
    by (simp add: eval_derived_zero)
  from percent_denominator_unguarded[of sample_engine net_zero_previous 0 None True
      initial_home_state "the (performanceData ?Z)" None initial_strategy_state
      "the (mstrData ?G)"] z z0
  have zc: "priceChangePercent (the (performanceData ?Z)) = PosInf
      \<or> priceChangePercent (the (performanceData ?Z)) = NegInf
      \<or> priceChangePercent (the (performanceData ?Z)) = NaN"
    by blast
  have "priceChangePercent (the (performanceData ?Z)) \<noteq> NegInf"
    "priceChangePercent (the (performanceData ?Z)) \<noteq> NaN"
    by (simp_all add: eval_derived_zero)
  with zc have w1: "priceChangePercent (the (performanceData ?Z)) = PosInf"
    by blast
  have y: "error ?Y = None" "performanceData ?Y = Some (the (performanceData ?Y))"
    by (simp_all add: eval_derived_year)
  have ycur: "currentPrice (the (performanceData ?Y)) = Fin 50000"
    "BitcoinPerformanceData.previousPrice (the (performanceData ?Y)) = Fin 40000"
    by (simp_all add: eval_derived_year)
  from percent_denominator_unguarded[of sample_engine net_year 0 None True
      initial_home_state "the (performanceData ?Y)" None initial_strategy_state
      "the (mstrData ?G)"] y
  have yc: "priceChange (the (performanceData ?Y)) =
      num_sub (roundNearest sample_engine) (currentPrice (the (performanceData ?Y)))
        (BitcoinPerformanceData.previousPrice (the (performanceData ?Y)))"
    and yp: "priceChangePercent (the (performanceData ?Y)) =
      num_mul (roundNearest sample_engine)
        (num_div (roundNearest sample_engine) (priceChange (the (performanceData ?Y)))
           (BitcoinPerformanceData.previousPrice (the (performanceData ?Y)))) (Fin 100)"
    by blast+
  from yc have w2: "priceChange (the (performanceData ?Y)) = Fin 10000"
    unfolding ycur by (simp add: sample_engine_def number_defs)
  from yp have w3: "priceChangePercent (the (performanceData ?Y)) = Fin 25"
    unfolding ycur w2 by (simp add: sample_engine_def number_defs)
  have g: "alpha_vantage net_zero_close = Inr (alpha_of zero_close_days)"
    "Time_Series_Daily (alpha_of zero_close_days) = Some zero_close_days"
    "latestData_of zero_close_days = Some ?L"
    "strategy_state.error ?G = None" "mstrData ?G = Some (the (mstrData ?G))"
    by (simp_all add: eval_mstr_zero_close)
      (simp_all add: net_zero_close_def offline_def alpha_of_def zero_close_days_def
        latestData_of_def)
  have w4: "is_zero (previousClose_of sample_engine ?L (previousData_of zero_close_days))"
    by (simp add: equity_defs)
  from percent_denominator_unguarded[of sample_engine net_zero_close 0 None True
      initial_home_state "the (performanceData ?Z)" None initial_strategy_state
      "the (mstrData ?G)"] g w4
  have gc: "MSTRData.priceChangePercent (the (mstrData ?G)) = PosInf
      \<or> MSTRData.priceChangePercent (the (mstrData ?G)) = NegInf
      \<or> MSTRData.priceChangePercent (the (mstrData ?G)) = NaN"
    by blast
  have "MSTRData.priceChangePercent (the (mstrData ?G)) \<noteq> NegInf"
    "MSTRData.priceChangePercent (the (mstrData ?G)) \<noteq> NaN"
    by (simp_all add: eval_mstr_zero_close)
  with gc have w5: "MSTRData.priceChangePercent (the (mstrData ?G)) = PosInf"
    by blast
  have h: "alpha_vantage net_negative_zero_close = Inr (alpha_of negative_zero_close_days)"
    "Time_Series_Daily (alpha_of negative_zero_close_days) = Some negative_zero_close_days"
    "latestData_of negative_zero_close_days = Some ?L"
    "strategy_state.error ?N = None" "mstrData ?N = Some (the (mstrData ?N))"
    by (simp_all add: eval_mstr_negative_zero_close)
      (simp_all add: net_negative_zero_close_def offline_def alpha_of_def
        negative_zero_close_days_def latestData_of_def)
  have w6: "is_zero (previousClose_of sample_engine ?L (previousData_of negative_zero_close_days))"
    by (simp add: equity_defs)
  from percent_denominator_unguarded[of sample_engine net_negative_zero_close 0 None True
      initial_home_state "the (performanceData ?Z)" None initial_strategy_state
      "the (mstrData ?N)"] h w6
  have hc: "MSTRData.priceChangePercent (the (mstrData ?N)) = PosInf
      \<or> MSTRData.priceChangePercent (the (mstrData ?N)) = NegInf
      \<or> MSTRData.priceChangePercent (the (mstrData ?N)) = NaN"
    by blast
  have "MSTRData.priceChangePercent (the (mstrData ?N)) \<noteq> PosInf"
    "MSTRData.priceChangePercent (the (mstrData ?N)) \<noteq> NaN"
    by (simp_all add: eval_mstr_negative_zero_close)
  with hc have w7: "MSTRData.priceChangePercent (the (mstrData ?N)) = NegInf"
    by blast
  have o: "alpha_vantage net_one_day = Inr (alpha_of one_day)"
    "Time_Series_Daily (alpha_of one_day) = Some one_day"
    "latestData_of one_day = Some ?L1"
    "strategy_state.error ?O = None" "mstrData ?O = Some (the (mstrData ?O))"
    by (simp_all add: eval_mstr_one_day)
      (simp_all add: net_one_day_def offline_def alpha_of_def one_day_def latestData_of_def)
  have w8: "previousData_of one_day = None"
    by (simp add: previousData_of_def one_day_def)
  have oprice: "MSTRData.price (the (mstrData ?O)) = Fin 410"
    by (simp add: eval_mstr_one_day)
  have oopen: "parseFloat sample_engine (open_1 ?L1) = Fin 328"
    by (simp add: sample_engine_def sample_parseFloat_def day_of_def)
  from percent_denominator_unguarded[of sample_engine net_one_day 0 None True
      initial_home_state "the (performanceData ?Z)" None initial_strategy_state
      "the (mstrData ?O)"] o w8
  have oc: "MSTRData.priceChange (the (mstrData ?O)) =
      num_sub (roundNearest sample_engine) (MSTRData.price (the (mstrData ?O)))
        (previousClose_of sample_engine ?L1 (previousData_of one_day))"
    and opc: "MSTRData.priceChangePercent (the (mstrData ?O)) =
      num_mul (roundNearest sample_engine)
        (num_div (roundNearest sample_engine) (MSTRData.priceChange (the (mstrData ?O)))
           (previousClose_of sample_engine ?L1 (previousData_of one_day))) (Fin 100)"
    and oo: "previousClose_of sample_engine ?L1 (previousData_of one_day) =
      parseFloat sample_engine (open_1 ?L1)"
    by blast+
  from oo have w9: "previousClose_of sample_engine ?L1 (previousData_of one_day) = Fin 328"
    unfolding oopen .
  from oc have w10: "MSTRData.priceChange (the (mstrData ?O)) = Fin 82"
    unfolding w9 oprice by (simp add: sample_engine_def number_defs)
  from opc have w11: "MSTRData.priceChangePercent (the (mstrData ?O)) = Fin 25"
    unfolding w9 w10 by (simp add: sample_engine_def number_defs)
  from z0 w1 w2 w3 w4 w5 w6 w7 w8 w9 w10 w11 show ?thesis by blast
qed

section \<open>The soft errors of the equity provider\<close>

lemma mstr_attempt_soft:
  assumes "alpha_vantage net = Inr d"
  shows "has_Error_Message d \<Longrightarrow>
           mstr_attempt eng net = Inl (ErrorInstance ''Invalid API call or symbol not found'')"
    and "\<not> has_Error_Message d \<Longrightarrow> has_Note d \<Longrightarrow>
           mstr_attempt eng net = Inl (ErrorInstance ''API call frequency limit reached'')"
    and "\<not> has_Error_Message d \<Longrightarrow> \<not> has_Note d \<Longrightarrow> Time_Series_Daily d = None \<Longrightarrow>
           mstr_attempt eng net = Inl (ErrorInstance ''No time series data available'')"
  using assms by (simp_all add: mstr_attempt_def)

lemma mstr_attempt_soft_engine:
  assumes "alpha_vantage net = Inr d"
    and "has_Error_Message d \<or> has_Note d \<or> Time_Series_Daily d = None"
  shows "mstr_attempt eng' net = mstr_attempt eng net \<and> (\<exists>e. mstr_attempt eng net = Inl e)"
  using assms by (auto simp: mstr_attempt_def)

text \<open>
  C4. The three tests are made in the order of the source. A payload with the key
  \<open>Error Message\<close> ends in the error state of the unknown symbol; one without it and
  with the key \<open>Note\<close> in that of the rate limit; one with neither key and without
  \<open>Time Series (Daily)\<close> in that of the missing series. In each case the state is the
  old one with the error set (and \<open>loading\<close> cleared on the initial load): no equity
  record is published. The result is the same under any other engine, so no
  \<open>parseFloat\<close> has been consulted. The three messages differ.
\<close>

theorem soft_errors_surface:
  assumes "alpha_vantage net = Inr d"
  shows
  "(has_Error_Message d \<longrightarrow>
      fetchMSTRData eng net now held init st =
        st\<lparr>strategy_state.loading := (if init then False else strategy_state.loading st),
           strategy_state.error := Some ''Invalid API call or symbol not found''\<rparr>)
   \<and> (\<not> has_Error_Message d \<longrightarrow> has_Note d \<longrightarrow>
      fetchMSTRData eng net now held init st =
        st\<lparr>strategy_state.loading := (if init then False else strategy_state.loading st),
           strategy_state.error := Some ''API call frequency limit reached''\<rparr>)
   \<and> (\<not> has_Error_Message d \<longrightarrow> \<not> has_Note d \<longrightarrow> Time_Series_Daily d = None \<longrightarrow>
      fetchMSTRData eng net now held init st =
        st\<lparr>strategy_state.loading := (if init then False else strategy_state.loading st),
           strategy_state.error := Some ''No time series data available''\<rparr>)
   \<and> (has_Error_Message d \<or> has_Note d \<or> Time_Series_Daily d = None \<longrightarrow>
      fetchMSTRData eng' net now held init st = fetchMSTRData eng net now held init st
      \<and> mstrData (fetchMSTRData eng net now held init st) = mstrData st)
   \<and> distinct [''Invalid API call or symbol not found'', ''API call frequency limit reached'',
        ''No time series data available'']"
proof (intro conjI impI)
  assume "has_Error_Message d"
  from mstr_attempt_soft(1)[OF assms this]
  show "fetchMSTRData eng net now held init st =
        st\<lparr>strategy_state.loading := (if init then False else strategy_state.loading st),
           strategy_state.error := Some ''Invalid API call or symbol not found''\<rparr>"
    by (simp add: fetchMSTRData_Inl)
next
  assume "\<not> has_Error_Message d" "has_Note d"
  from mstr_attempt_soft(2)[OF assms this]
  show "fetchMSTRData eng net now held init st =
        st\<lparr>strategy_state.loading := (if init then False else strategy_state.loading st),
           strategy_state.error := Some ''API call frequency limit reached''\<rparr>"
    by (simp add: fetchMSTRData_Inl)
next
  assume "\<not> has_Error_Message d" "\<not> has_Note d" "Time_Series_Daily d = None"
  from mstr_attempt_soft(3)[OF assms this]
  show "fetchMSTRData eng net now held init st =
        st\<lparr>strategy_state.loading := (if init then False else strategy_state.loading st),
           strategy_state.error := Some ''No time series data available''\<rparr>"
    by (simp add: fetchMSTRData_Inl)
next
  assume soft: "has_Error_Message d \<or> has_Note d \<or> Time_Series_Daily d = None"
  from mstr_attempt_soft_engine[OF assms soft, of eng' eng]
  obtain e where e: "mstr_attempt eng net = Inl e" "mstr_attempt eng' net = Inl e"
    by auto
  show "fetchMSTRData eng' net now held init st = fetchMSTRData eng net now held init st"
    by (simp add: fetchMSTRData_Inl[OF e(1)] fetchMSTRData_Inl[OF e(2)])
  show "mstrData (fetchMSTRData eng net now held init st) = mstrData st"
    by (simp add: fetchMSTRData_Inl[OF e(1)])
next
  show "distinct [''Invalid API call or symbol not found'', ''API call frequency limit reached'',
        ''No time series data available'']"
    by simp
qed

text \<open>The rate-limit payload, on a state that holds an earlier price.\<close>

theorem soft_errors_surface_witness:
  "alpha_vantage net_note =
     Inr \<lparr>has_Error_Message = False, has_Note = True, Meta_Data = None,
          Time_Series_Daily = None\<rparr>
   \<and> fetchMSTRData sample_engine net_note 300000 (Some (Fin 400)) False held_strategy_state =
       held_strategy_state\<lparr>strategy_state.error := Some ''API call frequency limit reached''\<rparr>
   \<and> fetchMSTRData nan_engine net_note 300000
        (Some (Fin 400)) False held_strategy_state =
       fetchMSTRData sample_engine net_note 300000 (Some (Fin 400)) False held_strategy_state
   \<and> mstrData (fetchMSTRData sample_engine net_note 300000 (Some (Fin 400)) False
        held_strategy_state) = mstrData held_strategy_state"
proof -
  let ?d = "\<lparr>has_Error_Message = False, has_Note = True, Meta_Data = None,
          Time_Series_Daily = None\<rparr>"
  have av: "alpha_vantage net_note = Inr ?d"
    by (simp add: net_note_def offline_def)
  note t = soft_errors_surface[OF av, of sample_engine 300000 "Some (Fin 400)" False
      held_strategy_state nan_engine]
  from t have a: "fetchMSTRData sample_engine net_note 300000 (Some (Fin 400)) False
      held_strategy_state =
       held_strategy_state\<lparr>strategy_state.loading :=
           (if False then False else strategy_state.loading held_strategy_state),
         strategy_state.error := Some ''API call frequency limit reached''\<rparr>"
    by simp
  have a': "held_strategy_state\<lparr>strategy_state.loading :=
           (if False then False else strategy_state.loading held_strategy_state),
         strategy_state.error := Some ''API call frequency limit reached''\<rparr>
      = held_strategy_state\<lparr>strategy_state.error := Some ''API call frequency limit reached''\<rparr>"
    by simp
  from t have b: "fetchMSTRData nan_engine net_note
        300000 (Some (Fin 400)) False held_strategy_state =
       fetchMSTRData sample_engine net_note 300000 (Some (Fin 400)) False held_strategy_state"
    and c: "mstrData (fetchMSTRData sample_engine net_note 300000 (Some (Fin 400)) False
        held_strategy_state) = mstrData held_strategy_state"
    by simp_all
  from av a[unfolded a'] b c show ?thesis by blast
qed


section \<open>The effect and the held price\<close>

text \<open>What the comparison does with a held price in scope, and what the timer does.\<close>

lemma flash_schedules:
  "\<not> strict_eq n p \<Longrightarrow> timers (flash (Some p) n st) = timers st @ [(2000, ClearPriceColor)]"
  by (simp add: flash_def Let_def)

lemma flash_rise:
  "num_gt n p \<Longrightarrow> priceColor (flash (Some p) n st) = Some ''#22C55E''"
  by (cases n; cases p) (auto simp: flash_def Let_def num_gt_def strict_eq_def)

lemma flash_fall:
  "num_lt n p \<Longrightarrow> priceColor (flash (Some p) n st) = Some ''#EF4444''"
  by (cases n; cases p) (auto simp: flash_def Let_def num_gt_def strict_eq_def)

lemma fire_clears: "priceColor (fire a st) = None"
  by (cases a) simp

text \<open>What the effect makes of it: the held price is never in scope.\<close>

lemma interval_tick_never_flashes:
  "priceColor (interval_tick eng net now st) = priceColor st
   \<and> timers (interval_tick eng net now st) = timers st"
  by (simp add: interval_tick_def fetchBitcoinData_def initial_home_state_def publish_no_held)

lemma interval_tick_mstr_never_flashes:
  "strategy_state.priceColor (interval_tick_mstr eng net now st) = strategy_state.priceColor st
   \<and> strategy_state.timers (interval_tick_mstr eng net now st) = strategy_state.timers st"
  by (simp add: interval_tick_mstr_def fetchMSTRData_def initial_strategy_state_def
      flash_mstr_None Let_def split: sum.splits prod.splits)

lemma eval_first_load:
  "first_load sample_engine net_50000 0 initial_home_state =
     initial_home_state\<lparr>loading := False, price := Some (Fin 50000), lastUpdated := Some 0,
       performanceData := performanceData (first_load sample_engine net_50000 0 initial_home_state)\<rparr>"
  by (simp add: first_load_def fetchBitcoinData_def publish_def flash_def detailed_attempt_def
      yearly_part_def net_50000_def sample_defs Let_def or_zero_def truthy_def)

lemma eval_tick_price:
  "price (interval_tick sample_engine net_51000 120000 st) = Some (Fin 51000)"
  by (simp add: interval_tick_def fetchBitcoinData_def publish_def flash_def detailed_attempt_def
      yearly_part_def net_51000_def sample_defs Let_def or_zero_def truthy_def)

lemma eval_fresh_closure:
  "priceColor (fetchBitcoinData sample_engine net_51000 120000 (Some (Fin 50000)) False st)
     = Some ''#22C55E''"
  by (simp add: fetchBitcoinData_def publish_def flash_def detailed_attempt_def
      yearly_part_def net_51000_def sample_defs Let_def or_zero_def truthy_def
      strict_eq_def num_gt_def)

lemma eval_first_load_mstr:
  "strategy_state.previousPrice
     (first_load_mstr sample_engine net_earlier_day 0 initial_strategy_state) = Some (Fin 400)
   \<and> strategy_state.priceColor
     (first_load_mstr sample_engine net_earlier_day 0 initial_strategy_state) = None
   \<and> strategy_state.timers
     (first_load_mstr sample_engine net_earlier_day 0 initial_strategy_state) = []"
  by (simp add: first_load_mstr_def fetchMSTRData_def mstr_attempt_def flash_mstr_def
      net_earlier_day_def equity_defs Let_def)

lemma eval_tick_mstr_price:
  "strategy_state.previousPrice (interval_tick_mstr sample_engine net_two_days 300000 st)
     = Some (Fin 410)"
  by (simp add: interval_tick_mstr_def fetchMSTRData_def mstr_attempt_def flash_mstr_def
      net_two_days_def equity_defs Let_def)

text \<open>
  C8. The fetch that the effect calls, at the first load and at every tick of the
  interval, closes over the initial \<open>null\<close>: after a first price of 50000, a tick
  that fetches 51000 sets no colour and schedules no timer, where the same fetch with
  the held 50000 in scope sets the green. The equity screen likewise, on 400 then 410.
\<close>

theorem held_price_never_seen:
  "price (first_load sample_engine net_50000 0 initial_home_state) = Some (Fin 50000)
   \<and> price (interval_tick sample_engine net_51000 120000
        (first_load sample_engine net_50000 0 initial_home_state)) = Some (Fin 51000)
   \<and> priceColor (interval_tick sample_engine net_51000 120000
        (first_load sample_engine net_50000 0 initial_home_state)) = None
   \<and> timers (interval_tick sample_engine net_51000 120000
        (first_load sample_engine net_50000 0 initial_home_state)) = []
   \<and> priceColor (fetchBitcoinData sample_engine net_51000 120000 (Some (Fin 50000)) False
        (first_load sample_engine net_50000 0 initial_home_state)) = Some ''#22C55E''
   \<and> strategy_state.previousPrice
        (first_load_mstr sample_engine net_earlier_day 0 initial_strategy_state) = Some (Fin 400)
   \<and> strategy_state.previousPrice (interval_tick_mstr sample_engine net_two_days 300000
        (first_load_mstr sample_engine net_earlier_day 0 initial_strategy_state)) = Some (Fin 410)
   \<and> strategy_state.priceColor (interval_tick_mstr sample_engine net_two_days 300000
        (first_load_mstr sample_engine net_earlier_day 0 initial_strategy_state)) = None
   \<and> strategy_state.timers (interval_tick_mstr sample_engine net_two_days 300000
        (first_load_mstr sample_engine net_earlier_day 0 initial_strategy_state)) = []"
proof -
  have a: "price (first_load sample_engine net_50000 0 initial_home_state) = Some (Fin 50000)"
    "priceColor (first_load sample_engine net_50000 0 initial_home_state) = None"
    "timers (first_load sample_engine net_50000 0 initial_home_state) = []"
    by (subst eval_first_load, simp add: initial_home_state_def)+
  from a interval_tick_never_flashes eval_tick_price eval_fresh_closure
    eval_first_load_mstr interval_tick_mstr_never_flashes eval_tick_mstr_price
  show ?thesis
    by simp
qed

section \<open>The chart fetch: what is published\<close>

lemma sorted_wrt_subseq:
  assumes "subseq xs ys" and "sorted_wrt R ys"
  shows "sorted_wrt R xs"
  using assms
proof (induction rule: list_emb.induct)
  case (list_emb_Nil ys)
  then show ?case by simp
next
  case (list_emb_Cons xs ys y)
  then show ?case by simp
next
  case (list_emb_Cons2 x y xs ys)
  then have "set xs \<subseteq> set ys" by (auto dest: list_emb_set)
  with list_emb_Cons2 show ?case by auto
qed

lemma gemini_chart_Inr:
  assumes "gemini_chart eng resp = Inr c"
  shows "\<exists>d cs. resp = Inr d \<and> changes d = Some cs \<and> cs \<noteq> []
     \<and> c = \<lparr>labels = map gemini_label [0..<length cs], data = map (parseFloat eng) (rev cs)\<rparr>"
  using assms
  by (auto simp: gemini_chart_def Let_def split: sum.splits option.splits if_splits)

lemma gemini_chart_ok:
  assumes "resp = Inr d" and "changes d = Some cs" and "cs \<noteq> []"
  shows "gemini_chart eng resp =
     Inr \<lparr>labels = map gemini_label [0..<length cs], data = map (parseFloat eng) (rev cs)\<rparr>"
  using assms by (simp add: gemini_chart_def Let_def)

lemma gemini_chart_failed:
  assumes "(\<exists>e. resp = Inl e) \<or> (\<exists>g. resp = Inr g \<and> (changes g = None \<or> changes g = Some []))"
  shows "\<exists>e. gemini_chart eng resp = Inl e"
  using assms by (auto simp: gemini_chart_def)

lemma gemini_chart_Inl:
  assumes "gemini_chart eng resp = Inl e"
  shows "(\<exists>e. resp = Inl e) \<or> (\<exists>g. resp = Inr g \<and> (changes g = None \<or> changes g = Some []))"
  using assms
  by (auto simp: gemini_chart_def Let_def split: sum.splits option.splits if_splits)

lemma coingecko_chart_Inr:
  assumes "coingecko_chart pre target label resp = Inr c"
  shows "\<exists>d ps. resp = Inr d \<and> prices d = Some ps \<and> ps \<noteq> []
     \<and> c = \<lparr>labels = map (\<lambda>item. label (fst item)) (downsample target ps),
             data = map snd (downsample target ps)\<rparr>"
  using assms
  by (auto simp: coingecko_chart_def Let_def split: sum.splits option.splits if_splits)

lemma coingecko_chart_ok:
  assumes "resp = Inr d" and "prices d = Some ps" and "ps \<noteq> []" and "pre ps = None"
  shows "coingecko_chart pre target label resp =
     Inr \<lparr>labels = map (\<lambda>item. label (fst item)) (downsample target ps),
          data = map snd (downsample target ps)\<rparr>"
  using assms by (simp add: coingecko_chart_def Let_def)

lemma coingecko_chart_empty:
  assumes "resp = Inr d" and "prices d = None \<or> prices d = Some []"
  shows "coingecko_chart pre target label resp = Inl (ErrorInstance ''No chart data available'')"
  using assms by (auto simp: coingecko_chart_def)

lemma downsample_subseq: "subseq (downsample target ps) ps"
  by (simp add: downsample_def Let_def filter_index_subseq)

text \<open>The requests of a fetch, and its result, by the outcome of the ticker.\<close>

lemma chart_attempt_gemini:
  assumes "gemini_chart eng (gemini_ticker net) = Inr c"
  shows "chart_attempt eng net I1D = ([GeminiTicker], Inr c)"
  using assms by (simp add: chart_attempt_def)

lemma chart_attempt_fallback:
  assumes "gemini_chart eng (gemini_ticker net) = Inl e"
  shows "chart_attempt eng net I1D =
     ([GeminiTicker, MarketChart ''1''],
      coingecko_chart no_log 12 (localeTime eng) (market_chart net ''1''))"
  using assms by (simp add: chart_attempt_def)

lemma chart_attempt_other:
  assumes "interval \<noteq> I1D"
  shows "\<exists>pre target label. chart_attempt eng net interval =
     ([MarketChart (dayMap interval)],
      coingecko_chart pre target label (market_chart net (dayMap interval)))"
  using assms by (cases interval) (auto simp: chart_attempt_def Let_def)

lemma fetchChartData_result:
  "fetchChartData eng net interval st =
     (case snd (chart_attempt eng net interval) of
        Inr c \<Rightarrow> st\<lparr>chartData := Some c, chartLoading := False\<rparr>
      | Inl e \<Rightarrow> st\<lparr>chartData := None, chartLoading := False\<rparr>,
      fst (chart_attempt eng net interval))"
  by (simp add: fetchChartData_def split: prod.splits)

lemma fetchChartData_published:
  assumes "chartData (fst (fetchChartData eng net interval st)) = Some c"
  shows "snd (chart_attempt eng net interval) = Inr c"
  using assms by (simp add: fetchChartData_result split: sum.splits)

text \<open>
  C3. Whatever a chart fetch publishes has as many labels as values. When the ticker
  answered (the only request is the ticker's), the values are the ticker's changes
  parsed in reverse order: the ticker lists newest first, so they run oldest first.
  Otherwise they are the prices of a subsequence of the CoinGecko series of the
  interval, in the order received: ascending timestamps stay ascending.
\<close>

theorem chart_series_invariant:
  assumes "chartData (fst (fetchChartData eng net interval st)) = Some c"
  shows "length (labels c) = length (data c)
     \<and> (snd (fetchChartData eng net interval st) = [GeminiTicker] \<longrightarrow>
          (\<exists>d cs. gemini_ticker net = Inr d \<and> changes d = Some cs
             \<and> data c = map (parseFloat eng) (rev cs)))
     \<and> (snd (fetchChartData eng net interval st) \<noteq> [GeminiTicker] \<longrightarrow>
          (\<exists>d ps kept. market_chart net (if interval = I1D then ''1'' else dayMap interval) = Inr d
             \<and> prices d = Some ps \<and> subseq kept ps \<and> data c = map snd kept
             \<and> (sorted_wrt (\<lambda>a b. num_lt (fst a) (fst b)) ps \<longrightarrow>
                  sorted_wrt (\<lambda>a b. num_lt (fst a) (fst b)) kept)))"
proof -
  note pub = fetchChartData_published[OF assms]
  have reqs: "snd (fetchChartData eng net interval st) = fst (chart_attempt eng net interval)"
    by (simp add: fetchChartData_result)
  have cg: "length (labels c) = length (data c)
     \<and> (\<exists>d ps kept. resp = Inr d \<and> prices d = Some ps \<and> subseq kept ps \<and> data c = map snd kept
          \<and> (sorted_wrt (\<lambda>a b. num_lt (fst a) (fst b)) ps \<longrightarrow>
               sorted_wrt (\<lambda>a b. num_lt (fst a) (fst b)) kept))"
    if "coingecko_chart pre target label resp = Inr c" for pre target label resp
  proof -
    from coingecko_chart_Inr[OF that] obtain d ps where
      d: "resp = Inr d" "prices d = Some ps"
      "c = \<lparr>labels = map (\<lambda>item. label (fst item)) (downsample target ps),
             data = map snd (downsample target ps)\<rparr>"
      by blast
    have "subseq (downsample target ps) ps" by (rule downsample_subseq)
    moreover from this have "sorted_wrt (\<lambda>a b. num_lt (fst a) (fst b)) ps \<longrightarrow>
        sorted_wrt (\<lambda>a b. num_lt (fst a) (fst b)) (downsample target ps)"
      by (blast intro: sorted_wrt_subseq)
    ultimately show ?thesis using d by auto
  qed
  show ?thesis
  proof (cases "interval = I1D")
    case True
    show ?thesis
    proof (cases "gemini_chart eng (gemini_ticker net)")
      case (Inr c')
      from chart_attempt_gemini[OF Inr] pub True have c: "c' = c" by simp
      from gemini_chart_Inr[OF Inr] c obtain d cs where
        "gemini_ticker net = Inr d" "changes d = Some cs"
        "c = \<lparr>labels = map gemini_label [0..<length cs], data = map (parseFloat eng) (rev cs)\<rparr>"
        by blast
      moreover have "snd (fetchChartData eng net interval st) = [GeminiTicker]"
        using chart_attempt_gemini[OF Inr] True reqs by simp
      ultimately show ?thesis by auto
    next
      case (Inl e)
      from chart_attempt_fallback[OF Inl] pub True
      have "coingecko_chart no_log 12 (localeTime eng) (market_chart net ''1'') = Inr c" by simp
      from cg[OF this] chart_attempt_fallback[OF Inl] True reqs show ?thesis by simp
    qed
  next
    case False
    from chart_attempt_other[OF False, of eng net] obtain pre target label where
      a: "chart_attempt eng net interval =
        ([MarketChart (dayMap interval)],
         coingecko_chart pre target label (market_chart net (dayMap interval)))"
      by blast
    with pub have "coingecko_chart pre target label (market_chart net (dayMap interval)) = Inr c"
      by simp
    from cg[OF this] a False reqs show ?thesis by simp
  qed
qed


lemma chart_attempt_empty:
  assumes "market_chart net (if interval = I1D then ''1'' else dayMap interval) = Inr d"
    and "prices d = None \<or> prices d = Some []"
    and "interval = I1D \<longrightarrow>
           (\<exists>e. gemini_ticker net = Inl e)
           \<or> (\<exists>g. gemini_ticker net = Inr g \<and> (changes g = None \<or> changes g = Some []))"
  shows "\<exists>e. snd (chart_attempt eng net interval) = Inl e"
proof (cases "interval = I1D")
  case True
  with assms(3) gemini_chart_failed[of "gemini_ticker net" eng]
  obtain e where "gemini_chart eng (gemini_ticker net) = Inl e" by blast
  from chart_attempt_fallback[OF this] True assms(1,2)
  show ?thesis by (simp add: coingecko_chart_empty)
next
  case False
  from chart_attempt_other[OF False, of eng net] obtain pre target label where
    a: "chart_attempt eng net interval =
      ([MarketChart (dayMap interval)],
       coingecko_chart pre target label (market_chart net (dayMap interval)))"
    by blast
  with False assms(1,2) show ?thesis by (simp add: coingecko_chart_empty)
qed

text \<open>
  C5. When the series of the interval comes without \<open>prices\<close> or with an empty one
  (and, on 1D, the ticker was rejected or came without changes), the fetch returns the
  state with \<open>chartData\<close> null and \<open>chartLoading\<close> false, which \<open>renderChart\<close> shows
  as unavailable. Every exception is a value inside the fetch and none is part of its
  result. The other cells, among them \<open>error\<close> and \<open>loading\<close> which decide whether
  the rest of the screen is shown, are untouched.
\<close>

theorem chart_unavailable_on_empty_series:
  assumes "market_chart net (if interval = I1D then ''1'' else dayMap interval) = Inr d"
    and "prices d = None \<or> prices d = Some []"
    and "interval = I1D \<longrightarrow>
           (\<exists>e. gemini_ticker net = Inl e)
           \<or> (\<exists>g. gemini_ticker net = Inr g \<and> (changes g = None \<or> changes g = Some []))"
  shows "fst (fetchChartData eng net interval st) = st\<lparr>chartData := None, chartLoading := False\<rparr>
     \<and> renderChart (fst (fetchChartData eng net interval st)) = ChartUnavailable
     \<and> error (fst (fetchChartData eng net interval st)) = error st
     \<and> loading (fst (fetchChartData eng net interval st)) = loading st
     \<and> price (fst (fetchChartData eng net interval st)) = price st
     \<and> performanceData (fst (fetchChartData eng net interval st)) = performanceData st"
proof -
  from chart_attempt_empty[OF assms] obtain e where
    "snd (chart_attempt eng net interval) = Inl e" by blast
  then have "fst (fetchChartData eng net interval st) = st\<lparr>chartData := None, chartLoading := False\<rparr>"
    by (simp add: fetchChartData_result)
  then show ?thesis by (simp add: renderChart_def)
qed

text \<open>An empty series behind an empty ticker on 1D, and the same series on 1Y.\<close>

theorem chart_unavailable_on_empty_series_witness:
  "market_chart net_no_prices ''1'' = Inr (series_of [])
   \<and> prices (series_of []) = Some []
   \<and> gemini_ticker net_no_prices = Inr \<lparr>changes = Some []\<rparr>
   \<and> fst (fetchChartData sample_engine net_no_prices I1D initial_chart_state)
       = initial_chart_state\<lparr>chartData := None, chartLoading := False\<rparr>
   \<and> renderChart (fst (fetchChartData sample_engine net_no_prices I1D initial_chart_state))
       = ChartUnavailable
   \<and> market_chart net_no_prices (dayMap I1Y) = Inr (series_of [])
   \<and> renderChart (fst (fetchChartData sample_engine net_no_prices I1Y initial_chart_state))
       = ChartUnavailable"
proof -
  have a: "market_chart net_no_prices (if I1D = I1D then ''1'' else dayMap I1D) = Inr (series_of [])"
    "prices (series_of []) = None \<or> prices (series_of []) = Some []"
    "I1D = I1D \<longrightarrow>
           (\<exists>e. gemini_ticker net_no_prices = Inl e)
           \<or> (\<exists>g. gemini_ticker net_no_prices = Inr g \<and> (changes g = None \<or> changes g = Some []))"
    by (simp_all add: net_no_prices_def offline_def series_of_def)
  have b: "market_chart net_no_prices (if I1Y = I1D then ''1'' else dayMap I1Y) = Inr (series_of [])"
    "I1Y = I1D \<longrightarrow>
           (\<exists>e. gemini_ticker net_no_prices = Inl e)
           \<or> (\<exists>g. gemini_ticker net_no_prices = Inr g \<and> (changes g = None \<or> changes g = Some []))"
    by (simp_all add: net_no_prices_def offline_def)
  have c: "market_chart net_no_prices ''1'' = Inr (series_of [])"
    "prices (series_of []) = Some []"
    "gemini_ticker net_no_prices = Inr \<lparr>changes = Some []\<rparr>"
    "market_chart net_no_prices (dayMap I1Y) = Inr (series_of [])"
    by (simp_all add: net_no_prices_def offline_def series_of_def)
  from chart_unavailable_on_empty_series[OF a, of sample_engine initial_chart_state]
    chart_unavailable_on_empty_series[OF b(1) a(2) b(2), of sample_engine initial_chart_state] c
  show ?thesis by blast
qed

text \<open>
  C6. On 1D the first request is the ticker's. A ticker with changes is published
  reversed, and nothing else is requested. The CoinGecko series of one day is requested
  if and only if the ticker was rejected or came with no changes; the chart is then
  the stride sample of that series with the target 12.
\<close>

theorem one_day_prefers_ticker:
  "hd (snd (fetchChartData eng net I1D st)) = GeminiTicker
   \<and> (MarketChart ''1'' \<in> set (snd (fetchChartData eng net I1D st)) \<longleftrightarrow>
        (\<exists>e. gemini_ticker net = Inl e)
        \<or> (\<exists>g. gemini_ticker net = Inr g \<and> (changes g = None \<or> changes g = Some [])))
   \<and> (\<forall>g cs. gemini_ticker net = Inr g \<longrightarrow> changes g = Some cs \<longrightarrow> cs \<noteq> [] \<longrightarrow>
        fetchChartData eng net I1D st =
          (st\<lparr>chartData := Some \<lparr>labels = map gemini_label [0..<length cs],
                                  data = map (parseFloat eng) (rev cs)\<rparr>,
              chartLoading := False\<rparr>,
           [GeminiTicker]))
   \<and> ((\<exists>e. gemini_ticker net = Inl e)
        \<or> (\<exists>g. gemini_ticker net = Inr g \<and> (changes g = None \<or> changes g = Some [])) \<longrightarrow>
        snd (fetchChartData eng net I1D st) = [GeminiTicker, MarketChart ''1'']
        \<and> (\<forall>d ps. market_chart net ''1'' = Inr d \<longrightarrow> prices d = Some ps \<longrightarrow> ps \<noteq> [] \<longrightarrow>
             fst (fetchChartData eng net I1D st) =
               st\<lparr>chartData := Some
                     \<lparr>labels = map (\<lambda>item. localeTime eng (fst item)) (downsample 12 ps),
                      data = map snd (downsample 12 ps)\<rparr>,
                  chartLoading := False\<rparr>))"
proof (cases "gemini_chart eng (gemini_ticker net)")
  case (Inr c)
  from gemini_chart_Inr[OF Inr] obtain g0 cs0 where
    g: "gemini_ticker net = Inr g0" "changes g0 = Some cs0" "cs0 \<noteq> []"
    "c = \<lparr>labels = map gemini_label [0..<length cs0], data = map (parseFloat eng) (rev cs0)\<rparr>"
    by blast
  have f: "fetchChartData eng net I1D st =
      (st\<lparr>chartData := Some c, chartLoading := False\<rparr>, [GeminiTicker])"
    by (simp add: fetchChartData_result chart_attempt_gemini[OF Inr])
  have nf: "\<not> ((\<exists>e. gemini_ticker net = Inl e)
        \<or> (\<exists>g. gemini_ticker net = Inr g \<and> (changes g = None \<or> changes g = Some [])))"
    using g by auto
  show ?thesis using f g nf by auto
next
  case (Inl e)
  from gemini_chart_Inl[OF Inl]
  have failed: "(\<exists>e. gemini_ticker net = Inl e)
        \<or> (\<exists>g. gemini_ticker net = Inr g \<and> (changes g = None \<or> changes g = Some []))" .
  have f: "fetchChartData eng net I1D st =
      (case coingecko_chart no_log 12 (localeTime eng) (market_chart net ''1'') of
         Inr c \<Rightarrow> st\<lparr>chartData := Some c, chartLoading := False\<rparr>
       | Inl e \<Rightarrow> st\<lparr>chartData := None, chartLoading := False\<rparr>,
       [GeminiTicker, MarketChart ''1''])"
    by (simp add: fetchChartData_result chart_attempt_fallback[OF Inl])
  have ok: "fst (fetchChartData eng net I1D st) =
               st\<lparr>chartData := Some
                     \<lparr>labels = map (\<lambda>item. localeTime eng (fst item)) (downsample 12 ps),
                      data = map snd (downsample 12 ps)\<rparr>,
                  chartLoading := False\<rparr>"
    if "market_chart net ''1'' = Inr d" "prices d = Some ps" "ps \<noteq> []" for d ps
    using f coingecko_chart_ok[OF that, of no_log 12 "localeTime eng"]
    by (simp add: no_log_def)
  have no: "\<not> (gemini_ticker net = Inr g \<and> changes g = Some cs \<and> cs \<noteq> [])" for g cs
    using failed by auto
  show ?thesis using f failed ok no by auto
qed

lemma sample_series_not_empty: "sample_series \<noteq> []"
  using sample_series_length by auto

lemma eval_chart_gemini:
  "fetchChartData sample_engine net_gemini I1D initial_chart_state =
     (initial_chart_state
        \<lparr>chartData := Some \<lparr>labels = ['''', '''', ''''],
                             data = [Fin (266001 / 4), Fin 66800, Fin (134001 / 2)]\<rparr>,
         chartLoading := False\<rparr>,
      [GeminiTicker])"
  by (simp add: fetchChartData_def chart_attempt_def gemini_chart_def net_gemini_def offline_def
      sample_engine_def sample_parseFloat_def gemini_label_def Let_def upt_rec)

lemma eval_chart_month:
  "fetchChartData sample_engine net_gemini I1M initial_chart_state =
     (initial_chart_state
        \<lparr>chartData := Some \<lparr>labels = map (\<lambda>item. ''Jan 1'') (downsample 8 sample_series),
                             data = map snd (downsample 8 sample_series)\<rparr>,
         chartLoading := False\<rparr>,
      [MarketChart ''30''])"
  by (simp add: fetchChartData_def chart_attempt_def coingecko_chart_def net_gemini_def
      offline_def series_of_def sample_engine_def no_log_def sample_series_not_empty Let_def)

text \<open>The ticker's three changes on 1D, and seventeen points on 1M.\<close>

theorem chart_series_invariant_witness:
  "snd (fetchChartData sample_engine net_gemini I1D initial_chart_state) = [GeminiTicker]
   \<and> chartData (fst (fetchChartData sample_engine net_gemini I1D initial_chart_state)) =
       Some \<lparr>labels = ['''', '''', ''''], data = [Fin (266001 / 4), Fin 66800, Fin (134001 / 2)]\<rparr>
   \<and> length (labels \<lparr>labels = ['''', '''', ''''],
                      data = [Fin (266001 / 4), Fin 66800, Fin (134001 / 2)]\<rparr>)
       = length (data \<lparr>labels = ['''', '''', ''''],
                       data = [Fin (266001 / 4), Fin 66800, Fin (134001 / 2)]\<rparr>)
   \<and> data \<lparr>labels = ['''', '''', ''''],
             data = [Fin (266001 / 4), Fin 66800, Fin (134001 / 2)]\<rparr>
       = map (parseFloat sample_engine) (rev [''67000.5'', ''66800'', ''66500.25''])
   \<and> snd (fetchChartData sample_engine net_gemini I1M initial_chart_state) = [MarketChart ''30'']
   \<and> chartData (fst (fetchChartData sample_engine net_gemini I1M initial_chart_state)) =
       Some \<lparr>labels = map (\<lambda>item. ''Jan 1'') (downsample 8 sample_series),
             data = map snd (downsample 8 sample_series)\<rparr>
   \<and> length (labels \<lparr>labels = map (\<lambda>item. ''Jan 1'') (downsample 8 sample_series),
                      data = map snd (downsample 8 sample_series)\<rparr>)
       = length (data \<lparr>labels = map (\<lambda>item. ''Jan 1'') (downsample 8 sample_series),
                       data = map snd (downsample 8 sample_series)\<rparr>)"
proof -
  let ?c = "\<lparr>labels = ['''', '''', ''''], data = [Fin (266001 / 4), Fin 66800, Fin (134001 / 2)]\<rparr>"
  let ?m = "\<lparr>labels = map (\<lambda>item. ''Jan 1'') (downsample 8 sample_series),
             data = map snd (downsample 8 sample_series)\<rparr>"
  have a: "chartData (fst (fetchChartData sample_engine net_gemini I1D initial_chart_state)) = Some ?c"
    "snd (fetchChartData sample_engine net_gemini I1D initial_chart_state) = [GeminiTicker]"
    by (simp_all add: eval_chart_gemini)
  have b: "chartData (fst (fetchChartData sample_engine net_gemini I1M initial_chart_state)) = Some ?m"
    "snd (fetchChartData sample_engine net_gemini I1M initial_chart_state) = [MarketChart ''30'']"
    by (simp_all add: eval_chart_month)
  from chart_series_invariant[OF a(1)] have c: "length (labels ?c) = length (data ?c)"
    by blast
  have g: "gemini_ticker net_gemini = Inr \<lparr>changes = Some [''67000.5'', ''66800'', ''66500.25'']\<rparr>"
    by (simp add: net_gemini_def offline_def)
  from chart_series_invariant[OF a(1)] a(2)
  obtain d' cs' where "gemini_ticker net_gemini = Inr d'" "changes d' = Some cs'"
    "data ?c = map (parseFloat sample_engine) (rev cs')"
    by blast
  with g have r: "data ?c = map (parseFloat sample_engine) (rev [''67000.5'', ''66800'', ''66500.25''])"
    by auto
  from chart_series_invariant[OF b(1)] have d: "length (labels ?m) = length (data ?m)"
    by blast
  from a b c d r show ?thesis by blast
qed

text \<open>A ticker of three changes, and an empty ticker before seventeen points.\<close>

theorem one_day_prefers_ticker_witness:
  "gemini_ticker net_gemini = Inr \<lparr>changes = Some [''67000.5'', ''66800'', ''66500.25'']\<rparr>
   \<and> fetchChartData sample_engine net_gemini I1D initial_chart_state =
       (initial_chart_state
          \<lparr>chartData := Some \<lparr>labels = ['''', '''', ''''],
                               data = [Fin (266001 / 4), Fin 66800, Fin (134001 / 2)]\<rparr>,
           chartLoading := False\<rparr>,
        [GeminiTicker])
   \<and> gemini_ticker net_gemini_empty = Inr \<lparr>changes = Some []\<rparr>
   \<and> snd (fetchChartData sample_engine net_gemini_empty I1D initial_chart_state)
       = [GeminiTicker, MarketChart ''1'']
   \<and> fst (fetchChartData sample_engine net_gemini_empty I1D initial_chart_state) =
       initial_chart_state
         \<lparr>chartData := Some
            \<lparr>labels = map (\<lambda>item. localeTime sample_engine (fst item)) (downsample 12 sample_series),
             data = map snd (downsample 12 sample_series)\<rparr>,
          chartLoading := False\<rparr>"
proof -
  have g: "gemini_ticker net_gemini = Inr \<lparr>changes = Some [''67000.5'', ''66800'', ''66500.25'']\<rparr>"
    "changes \<lparr>changes = Some [''67000.5'', ''66800'', ''66500.25'']\<rparr>
       = Some [''67000.5'', ''66800'', ''66500.25'']"
    "[''67000.5'', ''66800'', ''66500.25''] \<noteq> []"
    by (simp_all add: net_gemini_def offline_def)
  note t = one_day_prefers_ticker[of sample_engine net_gemini initial_chart_state]
  from t have "\<forall>g cs. gemini_ticker net_gemini = Inr g \<longrightarrow> changes g = Some cs \<longrightarrow> cs \<noteq> [] \<longrightarrow>
        fetchChartData sample_engine net_gemini I1D initial_chart_state =
          (initial_chart_state\<lparr>chartData := Some \<lparr>labels = map gemini_label [0..<length cs],
                                  data = map (parseFloat sample_engine) (rev cs)\<rparr>,
              chartLoading := False\<rparr>,
           [GeminiTicker])"
    by blast
  from this[rule_format, OF g]
  have a: "fetchChartData sample_engine net_gemini I1D initial_chart_state =
       (initial_chart_state
          \<lparr>chartData := Some \<lparr>labels = ['''', '''', ''''],
                               data = [Fin (266001 / 4), Fin 66800, Fin (134001 / 2)]\<rparr>,
           chartLoading := False\<rparr>,
        [GeminiTicker])"
    by (simp add: sample_engine_def sample_parseFloat_def gemini_label_def Let_def upt_rec)
  have e: "gemini_ticker net_gemini_empty = Inr \<lparr>changes = Some []\<rparr>"
    "market_chart net_gemini_empty ''1'' = Inr (series_of sample_series)"
    "prices (series_of sample_series) = Some sample_series"
    by (simp_all add: net_gemini_empty_def offline_def series_of_def)
  note u = one_day_prefers_ticker[of sample_engine net_gemini_empty initial_chart_state]
  from e(1) have failed: "(\<exists>e. gemini_ticker net_gemini_empty = Inl e)
        \<or> (\<exists>g. gemini_ticker net_gemini_empty = Inr g \<and> (changes g = None \<or> changes g = Some []))"
    by simp
  from u failed have b: "snd (fetchChartData sample_engine net_gemini_empty I1D initial_chart_state)
       = [GeminiTicker, MarketChart ''1'']"
    by blast
  from u failed have "\<forall>d ps. market_chart net_gemini_empty ''1'' = Inr d \<longrightarrow> prices d = Some ps \<longrightarrow>
      ps \<noteq> [] \<longrightarrow>
             fst (fetchChartData sample_engine net_gemini_empty I1D initial_chart_state) =
               initial_chart_state\<lparr>chartData := Some
                     \<lparr>labels = map (\<lambda>item. localeTime sample_engine (fst item)) (downsample 12 ps),
                      data = map snd (downsample 12 ps)\<rparr>,
                  chartLoading := False\<rparr>"
    by blast
  from this[rule_format, OF e(2) e(3) sample_series_not_empty]
  have c: "fst (fetchChartData sample_engine net_gemini_empty I1D initial_chart_state) =
       initial_chart_state
         \<lparr>chartData := Some
            \<lparr>labels = map (\<lambda>item. localeTime sample_engine (fst item)) (downsample 12 sample_series),
             data = map snd (downsample 12 sample_series)\<rparr>,
          chartLoading := False\<rparr>" .
  from g(1) a e(1) b c show ?thesis by blast
qed

end
